theory Spec2Isabelle
  imports Complex_Main
begin

section \<open>Data model of an interaction session\<close>

text \<open>
  The development follows \<^verbatim>\<open>src/Interaction.js\<close> (class \<^verbatim>\<open>Interaction\<close>) and
  \<^verbatim>\<open>src/interactions.js\<close> (the dispatcher). JavaScript objects become records, nullable
  fields become options, arrays become lists whose entries are options (\<open>None\<close> is a hole
  of a sparse array), numbers become reals. DOM nodes and Interactables are opaque
  handles.
\<close>

type_synonym element = nat
type_synonym interactable = nat

record xy =
  xval :: real
  yval :: real

record coords =
  page :: xy
  client :: xy
  timeStamp :: real

record dxy =
  dx :: real
  dy :: real
  vx :: real
  vy :: real
  speed :: real

record delta =
  dpage :: dxy
  dclient :: dxy
  dtimeStamp :: real

text \<open>A raw pointer (a Touch, or a mouse or pointer event seen as a pointer).\<close>

record pointer =
  pointerId :: int
  pagePos :: xy
  clientPos :: xy

text \<open>A raw DOM event. \<open>asPointer\<close> is the event read as a pointer, which is what the
  dispatcher passes for mouse and pointer events; \<open>evTarget\<close> and \<open>evCurrentTarget\<close> are what
  \<^verbatim>\<open>pointerUtils.getEventTargets\<close> yields and \<open>evPointerType\<close> what
  \<^verbatim>\<open>pointerUtils.getPointerType\<close> yields.\<close>

record event =
  etype :: string
  etimeStamp :: real
  evPointerType :: string
  asPointer :: pointer
  changedTouches :: "pointer list"
  evTarget :: element
  evCurrentTarget :: element

text \<open>An action descriptor \<^verbatim>\<open>{ name, axis, edges }\<close>, as handed to \<^verbatim>\<open>start\<close> and as held in
  the session's \<^verbatim>\<open>prepared\<close> slot. Every key may be missing or null, the name too:
  \<^verbatim>\<open>start\<close> takes whatever object it is given.\<close>

record actionInfo =
  name :: "string option"
  axis :: "string option"
  edges :: "(bool \<times> bool \<times> bool \<times> bool) option"

type_synonym action = actionInfo

text \<open>Event objects that flow through the session: a raw event, or a lifecycle event built
  by \<^verbatim>\<open>new InteractEvent(interaction, event, actionName, phase, element, null, preEnd)\<close>, of
  which the constructor arguments are kept.\<close>

datatype anyEvent =
    RawEvent event
  | InteractEvent "anyEvent option" "string option" string "element option" "bool option"

record interaction =
  target :: "interactable option"
  element :: "element option"
  prepared :: actionInfo
  pointers :: "pointer option list"
  pointerIds :: "int option list"
  downTargets :: "element option list"
  downTimes :: "real option list"
  prevCoords :: coords
  curCoords :: coords
  startCoords :: coords
  pointerDelta :: delta
  downEvent :: "event option"
  downPointer :: "pointer option"
  priv_eventTarget :: "element option"
  priv_curEventTarget :: "element option"
  prevEvent :: "anyEvent option"
  pointerIsDown :: bool
  pointerWasMoved :: bool
  priv_interacting :: bool
  priv_ending :: bool
  pointerType :: string
  simulation :: bool

text \<open>The argument object of a signal: a JavaScript object whose keys are optional.\<close>

record signalArg =
  a_pointer :: "pointer option"
  a_pointerIndex :: "int option"
  a_pointerId :: "int option"
  a_event :: "anyEvent option"
  a_eventTarget :: "element option"
  a_curEventTarget :: "element option"
  a_dx :: "real option"
  a_dy :: "real option"
  a_duplicate :: "bool option"
  a_interactingBeforeMove :: "bool option"
  a_down :: "bool option"
  a_iEvent :: "anyEvent option"
  a_preEnd :: "bool option"

definition noArg :: signalArg where
  "noArg = \<lparr> a_pointer = None, a_pointerIndex = None, a_pointerId = None, a_event = None,
     a_eventTarget = None, a_curEventTarget = None, a_dx = None, a_dy = None,
     a_duplicate = None, a_interactingBeforeMove = None, a_down = None, a_iEvent = None,
     a_preEnd = None \<rparr>"

text \<open>One firing on the signal bus: the channel, the argument object, and the session
  the argument refers to (\<^verbatim>\<open>interaction: this\<close>) as it is at the moment of the firing.\<close>

record signal =
  sigName :: string
  sigArg :: signalArg
  snapshot :: "interaction option"

text \<open>A session together with the bus it fires on and the events it handed to its
  target (\<^verbatim>\<open>target.fire(iEvent)\<close>).\<close>

record session =
  self :: interaction
  fired :: "signal list"
  delivered :: "(interactable \<times> anyEvent) list"

text \<open>What a call sees of its surroundings, which are not part of the two source files.
  \<open>listeners\<close> is the value the listener chain of a channel returns for a firing (\<open>False\<close>
  is the \<^verbatim>\<open>false\<close> sentinel); a listener is taken to observe the session and to leave it
  as it is. \<open>setCoords\<close> is \<^verbatim>\<open>utils.pointer.setCoords\<close>, which computes a coordinate snapshot
  from the held pointers and the clock; every operation calls it at most once.\<close>

record env =
  listeners :: "signal \<Rightarrow> bool"
  setCoords :: "pointer option list \<Rightarrow> coords"

datatype error = TypeError

text \<open>A call returns, or throws and leaves the session as it is at the throw.\<close>

datatype 's outcome = Returned 's | Threw error 's

fun stateOf :: "'s outcome \<Rightarrow> 's" where
  "stateOf (Returned s) = s"
| "stateOf (Threw e s) = s"

fun returned :: "'s outcome \<Rightarrow> bool" where
  "returned (Returned s) = True"
| "returned (Threw e s) = False"

definition andThen :: "'s outcome \<Rightarrow> ('s \<Rightarrow> 's outcome) \<Rightarrow> 's outcome" where
  "andThen r k = (case r of Returned s \<Rightarrow> k s | Threw e s \<Rightarrow> Threw e s)"

section \<open>JavaScript arrays and strings\<close>

text \<open>\<^verbatim>\<open>xs[i] = v\<close>: an index past the end extends the array, leaving holes.\<close>

definition js_set :: "'a option list \<Rightarrow> nat \<Rightarrow> 'a \<Rightarrow> 'a option list" where
  "js_set xs i v =
     (if i < length xs then xs[i := Some v]
      else xs @ replicate (i - length xs) None @ [Some v])"

text \<open>\<^verbatim>\<open>xs.splice(i, 1)\<close> for \<open>i \<ge> 0\<close>: nothing is removed when \<open>i\<close> is past the end.\<close>

definition splice1 :: "'a list \<Rightarrow> nat \<Rightarrow> 'a list" where
  "splice1 xs i = take i xs @ drop (Suc i) xs"

fun indexOfFrom :: "'a option list \<Rightarrow> 'a \<Rightarrow> int \<Rightarrow> int" where
  "indexOfFrom [] v k = - 1"
| "indexOfFrom (u # us) v k = (if u = Some v then k else indexOfFrom us v (k + 1))"

definition indexOf :: "'a option list \<Rightarrow> 'a \<Rightarrow> int" where
  "indexOf xs v = indexOfFrom xs v 0"

fun startsWith :: "string \<Rightarrow> string \<Rightarrow> bool" where
  "startsWith [] s = True"
| "startsWith (c # cs) [] = False"
| "startsWith (c # cs) (d # ds) = (c = d \<and> startsWith cs ds)"


text \<open>Letters \<open>A\<close> to \<open>Z\<close> (codes 65 to 90) get bit 5 set, which adds 32.\<close>

definition toLowerAscii :: "char \<Rightarrow> char" where
  "toLowerAscii c =
     (let n = (of_char c :: nat)
      in if 65 \<le> n \<and> n \<le> 90
         then (case c of Char b0 b1 b2 b3 b4 b5 b6 b7 \<Rightarrow> Char b0 b1 b2 b3 b4 True b6 b7)
         else c)"

text \<open>\<^verbatim>\<open>/pat$/i.test(s)\<close> for a literal lower-case pattern: \<open>s\<close> ends with \<open>pat\<close>, letter case
  ignored.\<close>

definition regexEndsNoCase :: "string \<Rightarrow> string \<Rightarrow> bool" where
  "regexEndsNoCase pat s = startsWith (rev pat) (rev (map toLowerAscii s))"

section \<open>Collaborators of \<^verbatim>\<open>utils\<close>\<close>

text \<open>Modelled from the spec: \<^verbatim>\<open>utils.hypot\<close>, the Euclidean length of \<open>(dx, dy)\<close>.\<close>

definition hypot :: "real \<Rightarrow> real \<Rightarrow> real" where
  "hypot a b = sqrt (a * a + b * b)"

definition pointerMoveTolerance :: real where
  "pointerMoveTolerance = 1"

text \<open>Modelled from the spec: \<^verbatim>\<open>utils.pointer.getPointerId\<close>, the stable identifier of a
  contact.\<close>

definition getPointerId :: "pointer \<Rightarrow> int" where
  "getPointerId p = pointerId p"

text \<open>Modelled from the spec: \<^verbatim>\<open>utils.copyAction(dest, src)\<close> copies the requested action
  descriptor into \<^verbatim>\<open>prepared\<close>.\<close>

definition copyAction :: "actionInfo \<Rightarrow> action \<Rightarrow> actionInfo" where
  "copyAction dest src = dest\<lparr> name := name src, axis := axis src, edges := edges src \<rparr>"

text \<open>Modelled from the spec (Kinematics Tracker): \<^verbatim>\<open>utils.pointer.setCoordDeltas\<close>, with
  \<open>dx = cur.x - prev.x\<close>, \<open>vx = dx / timeDelta\<close> (0 if the time delta is 0) and
  \<open>speed = hypot(vx, vy)\<close>, in page space and in client space.\<close>

definition spaceDelta :: "xy \<Rightarrow> xy \<Rightarrow> real \<Rightarrow> dxy" where
  "spaceDelta p c dt =
     (let ddx = xval c - xval p; ddy = yval c - yval p;
          vvx = (if dt = 0 then 0 else ddx / dt); vvy = (if dt = 0 then 0 else ddy / dt)
      in \<lparr> dx = ddx, dy = ddy, vx = vvx, vy = vvy, speed = hypot vvx vvy \<rparr>)"

definition setCoordDeltas :: "coords \<Rightarrow> coords \<Rightarrow> delta" where
  "setCoordDeltas prev cur =
     (let dt = timeStamp cur - timeStamp prev
      in \<lparr> dpage = spaceDelta (page prev) (page cur) dt,
           dclient = spaceDelta (client prev) (client cur) dt,
           dtimeStamp = dt \<rparr>)"

section \<open>The class \<^verbatim>\<open>Interaction\<close>\<close>

definition mkSignal :: "string \<Rightarrow> signalArg \<Rightarrow> session \<Rightarrow> signal" where
  "mkSignal nm arg s = \<lparr> sigName = nm, sigArg = arg, snapshot = Some (self s) \<rparr>"

text \<open>Modelled from the spec: the Signal Bus (\<^verbatim>\<open>utils/Signals\<close>), a publish and subscribe
  mechanism whose \<^verbatim>\<open>fire(name, arg)\<close> calls the listeners of a channel and returns the false
  sentinel when one of them vetoes. Here \<^verbatim>\<open>this._signals.fire(name, arg)\<close> appends the
  firing to the bus, and \<open>fireResult\<close> is the value the call returns.\<close>

definition fire :: "string \<Rightarrow> signalArg \<Rightarrow> session \<Rightarrow> session" where
  "fire nm arg s = s\<lparr> fired := fired s @ [mkSignal nm arg s] \<rparr>"

definition fireResult :: "env \<Rightarrow> string \<Rightarrow> signalArg \<Rightarrow> session \<Rightarrow> bool" where
  "fireResult E nm arg s = listeners E (mkSignal nm arg s)"

definition zeroCoords :: coords where
  "zeroCoords = \<lparr> page = \<lparr> xval = 0, yval = 0 \<rparr>, client = \<lparr> xval = 0, yval = 0 \<rparr>, timeStamp = 0 \<rparr>"

definition zeroDxy :: dxy where
  "zeroDxy = \<lparr> dx = 0, dy = 0, vx = 0, vy = 0, speed = 0 \<rparr>"

definition newInteractionObject :: "string \<Rightarrow> interaction" where
  "newInteractionObject pt =
     \<lparr> target = None, element = None,
       prepared = \<lparr> name = None, axis = None, edges = None \<rparr>,
       pointers = [], pointerIds = [], downTargets = [], downTimes = [],
       prevCoords = zeroCoords, curCoords = zeroCoords, startCoords = zeroCoords,
       pointerDelta = \<lparr> dpage = zeroDxy, dclient = zeroDxy, dtimeStamp = 0 \<rparr>,
       downEvent = None, downPointer = None,
       priv_eventTarget = None, priv_curEventTarget = None,
       prevEvent = None,
       pointerIsDown = False, pointerWasMoved = False,
       priv_interacting = False, priv_ending = False,
       pointerType = pt, simulation = False \<rparr>"

text \<open>The constructor, on a bus that already holds the firings \<open>bus\<close>.\<close>

definition constructor :: "string \<Rightarrow> signal list \<Rightarrow> (interactable \<times> anyEvent) list \<Rightarrow> session" where
  "constructor pt bus dl =
     (let s = \<lparr> self = newInteractionObject pt, fired = bus, delivered = dl \<rparr>
      in fire ''new'' noArg s)"

definition interacting :: "session \<Rightarrow> bool" where
  "interacting s = priv_interacting (self s)"

definition currentAction :: "session \<Rightarrow> string option" where
  "currentAction s = (if priv_interacting (self s) then name (prepared (self s)) else None)"

definition getPointerIndex :: "session \<Rightarrow> pointer \<Rightarrow> int" where
  "getPointerIndex s p =
     (if pointerType (self s) = ''mouse'' \<or> pointerType (self s) = ''pen'' then 0
      else indexOf (pointerIds (self s)) (getPointerId p))"

text \<open>The index \<^verbatim>\<open>updatePointer\<close> works at: the one \<^verbatim>\<open>getPointerIndex\<close> yields, or a new one
  at the end of \<^verbatim>\<open>pointerIds\<close>.\<close>

definition slotIndex :: "session \<Rightarrow> pointer \<Rightarrow> nat" where
  "slotIndex s p =
     (if getPointerIndex s p = - 1 then length (pointerIds (self s))
      else nat (getPointerIndex s p))"

definition createPreparedEvent :: "session \<Rightarrow> anyEvent option \<Rightarrow> string \<Rightarrow> bool option \<Rightarrow> anyEvent" where
  "createPreparedEvent s ev phase preEnd =
     InteractEvent ev (name (prepared (self s))) phase (element (self s)) preEnd"

text \<open>\<^verbatim>\<open>_fireEvent(iEvent)\<close>. The target's \<^verbatim>\<open>fire\<close> delivers the event to the application's
  listeners, which is recorded in \<open>delivered\<close>; \<^verbatim>\<open>this.target.fire(iEvent)\<close> on a null target
  is a TypeError.\<close>

definition fireEvent :: "anyEvent \<Rightarrow> session \<Rightarrow> session outcome" where
  "fireEvent iEvent s =
     (case target (self s) of
        None \<Rightarrow> Threw TypeError s
      | Some t \<Rightarrow>
          Returned (s\<lparr> delivered := delivered s @ [(t, iEvent)],
                       self := (self s)\<lparr> prevEvent := Some iEvent \<rparr> \<rparr>))"


definition stop :: "session \<Rightarrow> session" where
  "stop s =
     (let s1 = fire ''stop'' noArg s
      in s1\<lparr> self := (self s1)\<lparr> target := None, element := None,
                                priv_interacting := False,
                                prepared := (prepared (self s1))\<lparr> name := None \<rparr>,
                                prevEvent := None \<rparr> \<rparr>)"

text \<open>\<^verbatim>\<open>updatePointer(pointer, event, eventTarget, down)\<close> returns the index of the contact.
  \<^verbatim>\<open>utils.pointer.copyCoords\<close> copies a snapshot and \<^verbatim>\<open>utils.pointer.pointerExtend\<close> copies the
  pointer into \<^verbatim>\<open>downPointer\<close>.\<close>

definition updatePointer :: "env \<Rightarrow> pointer \<Rightarrow> event \<Rightarrow> element \<Rightarrow> bool \<Rightarrow> session \<Rightarrow> nat \<times> session" where
  "updatePointer E p ev et down s =
     (let pid = getPointerId p;
          found = getPointerIndex s p;
          index = (if found = - 1 then length (pointerIds (self s)) else nat found);
          s1 = (if found = - 1
                then s\<lparr> self := (self s)\<lparr> pointerIds := js_set (pointerIds (self s)) index pid \<rparr> \<rparr>
                else s);
          s4 = (if down
                then
                  (let s2 = s1\<lparr> self := (self s1)\<lparr>
                               pointerIds := js_set (pointerIds (self s1)) index pid,
                               pointers := js_set (pointers (self s1)) index p,
                               pointerIsDown := True \<rparr> \<rparr>;
                       s3 = (if \<not> interacting s2
                             then
                               (let sc = setCoords E (pointers (self s2))
                                in s2\<lparr> self := (self s2)\<lparr>
                                     startCoords := sc, curCoords := sc, prevCoords := sc,
                                     downEvent := Some ev,
                                     downTimes := js_set (downTimes (self s2)) index (timeStamp sc),
                                     downTargets := js_set (downTargets (self s2)) index et,
                                     pointerWasMoved := False,
                                     downPointer := Some p \<rparr> \<rparr>)
                             else s2)
                   in fire ''update-pointer-down''
                        (noArg\<lparr> a_pointer := Some p, a_event := Some (RawEvent ev),
                                a_eventTarget := Some et, a_down := Some down,
                                a_pointerId := Some pid, a_pointerIndex := Some (int index) \<rparr>) s3)
                else s1)
      in (index, s4\<lparr> self := (self s4)\<lparr> pointers := js_set (pointers (self s4)) index p \<rparr> \<rparr>))"

text \<open>The default of the fourth parameter: \<^verbatim>\<open>event && /(down|start)$/i.test(event.type)\<close>.\<close>

definition defaultDown :: "event \<Rightarrow> bool" where
  "defaultDown ev = (regexEndsNoCase ''down'' (etype ev) \<or> regexEndsNoCase ''start'' (etype ev))"

definition pointerDown :: "env \<Rightarrow> pointer \<Rightarrow> event \<Rightarrow> element \<Rightarrow> session \<Rightarrow> session" where
  "pointerDown E p ev et s =
     (let (pointerIndex, s1) = updatePointer E p ev et True s
      in fire ''down''
           (noArg\<lparr> a_pointer := Some p, a_event := Some (RawEvent ev),
                   a_eventTarget := Some et, a_pointerIndex := Some (int pointerIndex) \<rparr>) s1)"

definition start :: "action \<Rightarrow> interactable \<Rightarrow> element \<Rightarrow> session \<Rightarrow> session outcome" where
  "start act tg el s =
     (if interacting s
         \<or> \<not> pointerIsDown (self s)
         \<or> length (pointerIds (self s)) < (if name act = Some ''gesture'' then 2 else 1)
      then Returned s
      else
        (let s1 = s\<lparr> self := (self s)\<lparr> prepared := copyAction (prepared (self s)) act,
                                      target := Some tg, element := Some el,
                                      priv_interacting := True \<rparr> \<rparr>;
             startEvent = createPreparedEvent s1 (map_option RawEvent (downEvent (self s1)))
                            ''start'' (Some False);
             arg = noArg\<lparr> a_event := map_option RawEvent (downEvent (self s1)),
                          a_iEvent := Some startEvent \<rparr>;
             s2 = fire ''action-start'' arg s1
         in andThen (fireEvent startEvent s2)
              (\<lambda>s3. Returned (fire ''after-action-start'' arg s3))))"

text \<open>\<^verbatim>\<open>utils.extend(dest, source)\<close> on argument objects: the keys of \<open>source\<close> win.\<close>

definition orElse :: "'a option \<Rightarrow> 'a option \<Rightarrow> 'a option" where
  "orElse a b = (case a of Some v \<Rightarrow> Some v | None \<Rightarrow> b)"

definition extend :: "signalArg \<Rightarrow> signalArg \<Rightarrow> signalArg" where
  "extend dest src =
     \<lparr> a_pointer = orElse (a_pointer src) (a_pointer dest),
       a_pointerIndex = orElse (a_pointerIndex src) (a_pointerIndex dest),
       a_pointerId = orElse (a_pointerId src) (a_pointerId dest),
       a_event = orElse (a_event src) (a_event dest),
       a_eventTarget = orElse (a_eventTarget src) (a_eventTarget dest),
       a_curEventTarget = orElse (a_curEventTarget src) (a_curEventTarget dest),
       a_dx = orElse (a_dx src) (a_dx dest),
       a_dy = orElse (a_dy src) (a_dy dest),
       a_duplicate = orElse (a_duplicate src) (a_duplicate dest),
       a_interactingBeforeMove = orElse (a_interactingBeforeMove src) (a_interactingBeforeMove dest),
       a_down = orElse (a_down src) (a_down dest),
       a_iEvent = orElse (a_iEvent src) (a_iEvent dest),
       a_preEnd = orElse (a_preEnd src) (a_preEnd dest) \<rparr>"

definition doMove :: "env \<Rightarrow> signalArg option \<Rightarrow> session \<Rightarrow> session outcome" where
  "doMove E given s =
     (let arg = extend
                  (noArg\<lparr> a_pointer := (case pointers (self s) of [] \<Rightarrow> None | p0 # ps \<Rightarrow> p0),
                          a_event := prevEvent (self s),
                          a_eventTarget := priv_eventTarget (self s) \<rparr>)
                  (case given of None \<Rightarrow> noArg | Some g \<Rightarrow> g);
          beforeMoveResult = fireResult E ''before-action-move'' arg s;
          s1 = fire ''before-action-move'' arg s
      in if beforeMoveResult
         then
           (let moveEvent = createPreparedEvent s1 (a_event arg) ''move'' (a_preEnd arg);
                arg2 = arg\<lparr> a_iEvent := Some moveEvent \<rparr>;
                s2 = fire ''action-move'' arg2 s1
            in andThen (fireEvent moveEvent s2)
                 (\<lambda>s3. Returned (fire ''after-action-move'' arg2 s3)))
         else Returned s1)"

definition duplicateMove :: "interaction \<Rightarrow> bool" where
  "duplicateMove i =
     (xval (page (curCoords i)) = xval (page (prevCoords i))
      \<and> yval (page (curCoords i)) = yval (page (prevCoords i))
      \<and> xval (client (curCoords i)) = xval (client (prevCoords i))
      \<and> yval (client (curCoords i)) = yval (client (prevCoords i)))"

text \<open>\<^verbatim>\<open>pointerMove\<close>, block by block. First the sample is taken: unless a simulation runs,
  the pointer is stored and the current coordinates are read from the held pointers.\<close>

definition moveSample :: "env \<Rightarrow> pointer \<Rightarrow> event \<Rightarrow> element \<Rightarrow> session \<Rightarrow> session" where
  "moveSample E p ev et s =
     (if \<not> simulation (self s)
      then
        (let s0 = snd (updatePointer E p ev et False s)
         in s0\<lparr> self := (self s0)\<lparr> curCoords := setCoords E (pointers (self s0)) \<rparr> \<rparr>)
      else s)"

text \<open>Then movement greater than the tolerance is registered: \<open>clientDx\<close> and \<open>clientDy\<close>
  are the locals \<^verbatim>\<open>dx\<close> and \<^verbatim>\<open>dy\<close>, set only under the condition \<open>toleranceChecked\<close>.\<close>

definition toleranceChecked :: "interaction \<Rightarrow> bool" where
  "toleranceChecked i = (pointerIsDown i \<and> \<not> pointerWasMoved i)"

definition clientDx :: "interaction \<Rightarrow> real" where
  "clientDx i = xval (client (curCoords i)) - xval (client (startCoords i))"

definition clientDy :: "interaction \<Rightarrow> real" where
  "clientDy i = yval (client (curCoords i)) - yval (client (startCoords i))"

definition registerMovement :: "session \<Rightarrow> session" where
  "registerMovement s =
     (if toleranceChecked (self s)
      then s\<lparr> self := (self s)\<lparr> pointerWasMoved :=
                  (hypot (clientDx (self s)) (clientDy (self s)) > pointerMoveTolerance) \<rparr> \<rparr>
      else s)"

text \<open>The argument object of the \<^verbatim>\<open>move\<close> signal, built after the tolerance check from the
  session before it (\<open>s1\<close>) and after it (\<open>s2\<close>).\<close>

definition moveSignalArg :: "pointer \<Rightarrow> event \<Rightarrow> element \<Rightarrow> session \<Rightarrow> session \<Rightarrow> signalArg" where
  "moveSignalArg p ev et s1 s2 =
     noArg\<lparr> a_pointer := Some p,
            a_pointerIndex := Some (getPointerIndex s2 p),
            a_event := Some (RawEvent ev),
            a_eventTarget := Some et,
            a_dx := (if toleranceChecked (self s1) then Some (clientDx (self s1)) else None),
            a_dy := (if toleranceChecked (self s1) then Some (clientDy (self s1)) else None),
            a_duplicate := Some (duplicateMove (self s1)),
            a_interactingBeforeMove := Some (interacting s2) \<rparr>"

definition pointerMove :: "env \<Rightarrow> pointer \<Rightarrow> event \<Rightarrow> element \<Rightarrow> session \<Rightarrow> session outcome" where
  "pointerMove E p ev et s =
     (let s1 = moveSample E p ev et s;
          dup = duplicateMove (self s1);
          s2 = registerMovement s1;
          arg = moveSignalArg p ev et s1 s2;
          s3 = (if \<not> dup
                then s2\<lparr> self := (self s2)\<lparr> pointerDelta :=
                            setCoordDeltas (prevCoords (self s2)) (curCoords (self s2)) \<rparr> \<rparr>
                else s2);
          s4 = fire ''move'' arg s3
      in if \<not> dup
         then andThen (if interacting s4 then doMove E (Some arg) s4 else Returned s4)
                (\<lambda>s5. Returned (if pointerWasMoved (self s5)
                                 then s5\<lparr> self := (self s5)\<lparr> prevCoords := curCoords (self s5) \<rparr> \<rparr>
                                 else s5))
         else Returned s4)"

text \<open>\<^verbatim>\<open>end(event)\<close>.\<close>

definition end_op :: "env \<Rightarrow> anyEvent option \<Rightarrow> session \<Rightarrow> session outcome" where
  "end_op E given s =
     (let s1 = s\<lparr> self := (self s)\<lparr> priv_ending := True \<rparr> \<rparr>;
          ev = orElse given (prevEvent (self s1))
      in if interacting s1
         then
           (let endEvent = createPreparedEvent s1 ev ''end'' (Some False);
                arg = noArg\<lparr> a_event := ev, a_iEvent := Some endEvent \<rparr>;
                beforeEndResult = fireResult E ''before-action-end'' arg s1;
                s2 = fire ''before-action-end'' arg s1
            in if \<not> beforeEndResult
               then Returned (s2\<lparr> self := (self s2)\<lparr> priv_ending := False \<rparr> \<rparr>)
               else
                 andThen (fireEvent endEvent (fire ''action-end'' arg s2))
                   (\<lambda>s3. let s4 = fire ''after-action-end'' arg s3
                         in Returned (stop (s4\<lparr> self := (self s4)\<lparr> priv_ending := False \<rparr> \<rparr>))))
         else Returned (stop (s1\<lparr> self := (self s1)\<lparr> priv_ending := False \<rparr> \<rparr>)))"

text \<open>The firing of \<^verbatim>\<open>before-action-end\<close> that \<^verbatim>\<open>end(event)\<close> makes on an interacting session:
  the guard is already set when the listeners see the session.\<close>

definition beforeEndFiring :: "anyEvent option \<Rightarrow> session \<Rightarrow> signal" where
  "beforeEndFiring given s =
     (let s1 = s\<lparr> self := (self s)\<lparr> priv_ending := True \<rparr> \<rparr>;
          ev = orElse given (prevEvent (self s1))
      in mkSignal ''before-action-end''
           (noArg\<lparr> a_event := ev,
                   a_iEvent := Some (createPreparedEvent s1 ev ''end'' (Some False)) \<rparr>) s1)"

definition removePointer :: "pointer \<Rightarrow> event \<Rightarrow> session \<Rightarrow> session" where
  "removePointer p ev s =
     (let index = getPointerIndex s p
      in if index = - 1 then s
         else
           (let s1 = fire ''remove-pointer''
                       (noArg\<lparr> a_pointer := Some p, a_event := Some (RawEvent ev),
                               a_pointerIndex := Some index \<rparr>) s
            in s1\<lparr> self := (self s1)\<lparr>
                   pointers := splice1 (pointers (self s1)) (nat index),
                   pointerIds := splice1 (pointerIds (self s1)) (nat index),
                   downTargets := splice1 (downTargets (self s1)) (nat index),
                   downTimes := splice1 (downTimes (self s1)) (nat index) \<rparr> \<rparr>))"

text \<open>The registry (the four parallel arrays) and \<^verbatim>\<open>pointerIsDown\<close> of \<open>i\<close> are those of \<open>j\<close>.\<close>

definition sameRegistry :: "interaction \<Rightarrow> interaction \<Rightarrow> bool" where
  "sameRegistry i j =
     (pointers i = pointers j \<and> pointerIds i = pointerIds j
      \<and> downTargets i = downTargets j \<and> downTimes i = downTimes j
      \<and> pointerIsDown i = pointerIsDown j)"

text \<open>The firing with which \<^verbatim>\<open>pointerUp\<close> begins.\<close>

definition upFiring :: "pointer \<Rightarrow> event \<Rightarrow> element \<Rightarrow> element \<Rightarrow> session \<Rightarrow> signal" where
  "upFiring p ev et cet s =
     mkSignal (if regexEndsNoCase ''cancel'' (etype ev) then ''cancel'' else ''up'')
       (noArg\<lparr> a_pointer := Some p, a_pointerIndex := Some (getPointerIndex s p),
               a_event := Some (RawEvent ev), a_eventTarget := Some et,
               a_curEventTarget := Some cet \<rparr>) s"

definition pointerUp :: "env \<Rightarrow> pointer \<Rightarrow> event \<Rightarrow> element \<Rightarrow> element \<Rightarrow> session \<Rightarrow> session outcome" where
  "pointerUp E p ev et cet s =
     (let pointerIndex = getPointerIndex s p;
          s1 = fire (if regexEndsNoCase ''cancel'' (etype ev) then ''cancel'' else ''up'')
                 (noArg\<lparr> a_pointer := Some p, a_pointerIndex := Some pointerIndex,
                         a_event := Some (RawEvent ev), a_eventTarget := Some et,
                         a_curEventTarget := Some cet \<rparr>) s
      in andThen (if \<not> simulation (self s1) then end_op E (Some (RawEvent ev)) s1 else Returned s1)
           (\<lambda>s2. Returned (removePointer p ev (s2\<lparr> self := (self s2)\<lparr> pointerIsDown := False \<rparr> \<rparr>))))"

definition documentBlur :: "env \<Rightarrow> event \<Rightarrow> session \<Rightarrow> session outcome" where
  "documentBlur E ev s =
     andThen (end_op E (Some (RawEvent ev)) s)
       (\<lambda>s1. Returned (fire ''blur'' (noArg\<lparr> a_event := Some (RawEvent ev) \<rparr>) s1))"

section \<open>Sequences of calls on one session\<close>

datatype call =
    PointerDown pointer event element
  | Start action interactable element
  | PointerMove pointer event element
  | DoMove "signalArg option"
  | PointerUp pointer event element element
  | End "anyEvent option"
  | Stop
  | UpdatePointer pointer event element bool
  | RemovePointer pointer event
  | DocumentBlur event

fun perform :: "env \<Rightarrow> call \<Rightarrow> session \<Rightarrow> session outcome" where
  "perform E (PointerDown p ev et) s = Returned (pointerDown E p ev et s)"
| "perform E (Start act tg el) s = start act tg el s"
| "perform E (PointerMove p ev et) s = pointerMove E p ev et s"
| "perform E (DoMove given) s = doMove E given s"
| "perform E (PointerUp p ev et cet) s = pointerUp E p ev et cet s"
| "perform E (End given) s = end_op E given s"
| "perform E Stop s = Returned (stop s)"
| "perform E (UpdatePointer p ev et down) s = Returned (snd (updatePointer E p ev et down s))"
| "perform E (RemovePointer p ev) s = Returned (removePointer p ev s)"
| "perform E (DocumentBlur ev) s = documentBlur E ev s"

text \<open>Each call of a sequence comes with its own surroundings; a call that throws leaves
  the session as it is at the throw, and the next call finds it so.\<close>

fun run :: "(env \<times> call) list \<Rightarrow> session \<Rightarrow> session" where
  "run [] s = s"
| "run (ec # cs) s = run cs (stateOf (perform (fst ec) (snd ec) s))"

text \<open>The sessions seen after each call of a sequence.\<close>

fun visited :: "(env \<times> call) list \<Rightarrow> session \<Rightarrow> session list" where
  "visited [] s = []"
| "visited (ec # cs) s =
     (let s1 = stateOf (perform (fst ec) (snd ec) s) in s1 # visited cs s1)"

text \<open>The number of steps from \<open>False\<close> to \<open>True\<close> along a sequence of flag values.\<close>

fun risings :: "bool list \<Rightarrow> nat" where
  "risings (a # b # bs) = (if \<not> a \<and> b then 1 else 0) + risings (b # bs)"
| "risings bs = 0"

text \<open>A pointer-down: \<^verbatim>\<open>pointerDown\<close>, or \<^verbatim>\<open>updatePointer\<close> with a true \<^verbatim>\<open>down\<close>.\<close>

fun isDownCall :: "call \<Rightarrow> bool" where
  "isDownCall (PointerDown p ev et) = True"
| "isDownCall (UpdatePointer p ev et down) = down"
| "isDownCall c = False"

text \<open>A call that is not a \<^verbatim>\<open>start\<close> with an action whose name is missing or null.\<close>

fun startsNamed :: "call \<Rightarrow> bool" where
  "startsNamed (Start act tg el) = (name act \<noteq> None)"
| "startsNamed c = True"






subsection \<open>The registry as one sequence of contact records\<close>

text \<open>\<^verbatim>\<open>xs[k]\<close> read: past the end, and at a hole, it is \<^verbatim>\<open>undefined\<close>.\<close>

definition entry :: "'a option list \<Rightarrow> nat \<Rightarrow> 'a option" where
  "entry xs k = (if k < length xs then xs ! k else None)"









text \<open>The identifier at each index is that of the pointer at that index.\<close>

definition idsMatch :: "interaction \<Rightarrow> bool" where
  "idsMatch i =
     list_all (\<lambda>k. case entry (pointers i) k of
                      None \<Rightarrow> True
                    | Some q \<Rightarrow> entry (pointerIds i) k = Some (getPointerId q))
       [0..<length (pointers i)]"


section \<open>The dispatcher of \<^verbatim>\<open>interactions.js\<close>\<close>

text \<open>The pool of sessions. All sessions fire on the one bus \<^verbatim>\<open>scope.Interaction.signals\<close>;
  a session is referred to by its position in \<^verbatim>\<open>scope.interactions\<close>, which only grows.\<close>

record scope =
  interactions :: "interaction list"
  prevTouchTime :: real
  bus :: "signal list"
  handed :: "(interactable \<times> anyEvent) list"



datatype methodName =
    M_pointerDown | M_pointerMove | M_pointerUp | M_updatePointer | M_removePointer | M_windowBlur

definition methodNames :: "methodName list" where
  "methodNames = [M_pointerDown, M_pointerMove, M_pointerUp, M_updatePointer, M_removePointer,
     M_windowBlur]"












section \<open>Sample inputs\<close>

definition samplePointer :: "int \<Rightarrow> real \<Rightarrow> real \<Rightarrow> pointer" where
  "samplePointer i a b =
     \<lparr> pointerId = i, pagePos = \<lparr> xval = a, yval = b \<rparr>, clientPos = \<lparr> xval = a, yval = b \<rparr> \<rparr>"

definition sampleEvent :: "string \<Rightarrow> string \<Rightarrow> real \<Rightarrow> pointer \<Rightarrow> event" where
  "sampleEvent ty pt t p =
     \<lparr> etype = ty, etimeStamp = t, evPointerType = pt, asPointer = p,
       changedTouches = [p], evTarget = 1, evCurrentTarget = 2 \<rparr>"

text \<open>A \<^verbatim>\<open>setCoords\<close> that reads the first held pointer, at clock reading \<open>t\<close>.\<close>

definition sampleSetCoords :: "real \<Rightarrow> pointer option list \<Rightarrow> coords" where
  "sampleSetCoords t ps =
     (case ps of
        Some p # rest \<Rightarrow> \<lparr> page = pagePos p, client = clientPos p, timeStamp = t \<rparr>
      | _ \<Rightarrow> zeroCoords)"

text \<open>Surroundings at clock reading \<open>t\<close> whose listeners all return \<open>ok\<close>.\<close>

definition sampleEnv :: "real \<Rightarrow> bool \<Rightarrow> env" where
  "sampleEnv t ok = \<lparr> listeners = (\<lambda>f. ok), setCoords = sampleSetCoords t \<rparr>"

definition sampleAction :: "string \<Rightarrow> action" where
  "sampleAction nm = \<lparr> name = Some nm, axis = None, edges = None \<rparr>"

text \<open>A touch session with one contact down at the origin, and the same session after a
  drag was started on it.\<close>

definition sampleDown :: session where
  "sampleDown =
     pointerDown (sampleEnv 10 True) (samplePointer 1 0 0)
       (sampleEvent ''touchstart'' ''touch'' 10 (samplePointer 1 0 0)) 1
       (constructor ''touch'' [] [])"

definition sampleDragging :: session where
  "sampleDragging = stateOf (start (sampleAction ''drag'') 5 6 sampleDown)"

text \<open>The touch session on which \<^verbatim>\<open>start\<close> was called with an action that has no name
  (\<^verbatim>\<open>start({}, target, element)\<close> or \<^verbatim>\<open>start({ name: null }, target, element)\<close>).\<close>

definition sampleNameless :: session where
  "sampleNameless =
     run [(sampleEnv 10 True, Start \<lparr> name = None, axis = None, edges = None \<rparr> 5 6)] sampleDown"

text \<open>A mouse session with its one contact down, and a new mouse session over which the
  mouse moved without a button pressed.\<close>

definition sampleMouseDown :: session where
  "sampleMouseDown =
     pointerDown (sampleEnv 10 True) (samplePointer 1 0 0)
       (sampleEvent ''mousedown'' ''mouse'' 10 (samplePointer 1 0 0)) 1
       (constructor ''mouse'' [] [])"




definition sampleMouseOtherId :: session where
  "sampleMouseOtherId =
     run [(sampleEnv 20 True,
           PointerMove (samplePointer 2 5 5)
             (sampleEvent ''mousemove'' ''mouse'' 20 (samplePointer 2 5 5)) 1)]
       sampleMouseDown"




section \<open>Basic facts: outcomes\<close>

lemma stateOf_andThen:
  "stateOf (andThen r k) = (if returned r then stateOf (k (stateOf r)) else stateOf r)"
  by (cases r) (simp_all add: andThen_def)

lemma returned_andThen:
  "returned (andThen r k) = (returned r \<and> returned (k (stateOf r)))"
  by (cases r) (simp_all add: andThen_def)

section \<open>Basic facts: firing\<close>

lemma fire_simps [simp]:
  "self (fire nm arg s) = self s"
  "fired (fire nm arg s) = fired s @ [mkSignal nm arg s]"
  "delivered (fire nm arg s) = delivered s"
  "interacting (fire nm arg s) = interacting s"
  by (simp_all add: fire_def interacting_def)

lemma mkSignal_simps [simp]:
  "sigName (mkSignal nm arg s) = nm"
  "sigArg (mkSignal nm arg s) = arg"
  "snapshot (mkSignal nm arg s) = Some (self s)"
  by (simp_all add: mkSignal_def)

section \<open>What the control operations leave alone\<close>

lemma fireEvent_frame [simp]:
  "pointers (self (stateOf (fireEvent ie s))) = pointers (self s)"
  "pointerIds (self (stateOf (fireEvent ie s))) = pointerIds (self s)"
  "downTargets (self (stateOf (fireEvent ie s))) = downTargets (self s)"
  "downTimes (self (stateOf (fireEvent ie s))) = downTimes (self s)"
  "pointerType (self (stateOf (fireEvent ie s))) = pointerType (self s)"
  "simulation (self (stateOf (fireEvent ie s))) = simulation (self s)"
  "pointerIsDown (self (stateOf (fireEvent ie s))) = pointerIsDown (self s)"
  "pointerWasMoved (self (stateOf (fireEvent ie s))) = pointerWasMoved (self s)"
  "prevCoords (self (stateOf (fireEvent ie s))) = prevCoords (self s)"
  "curCoords (self (stateOf (fireEvent ie s))) = curCoords (self s)"
  "startCoords (self (stateOf (fireEvent ie s))) = startCoords (self s)"
  "pointerDelta (self (stateOf (fireEvent ie s))) = pointerDelta (self s)"
  "priv_interacting (self (stateOf (fireEvent ie s))) = priv_interacting (self s)"
  "priv_ending (self (stateOf (fireEvent ie s))) = priv_ending (self s)"
  "prepared (self (stateOf (fireEvent ie s))) = prepared (self s)"
  "target (self (stateOf (fireEvent ie s))) = target (self s)"
  "element (self (stateOf (fireEvent ie s))) = element (self s)"
  "interacting (stateOf (fireEvent ie s)) = interacting s"
  "returned (fireEvent ie s) = (target (self s) \<noteq> None)"
  by (simp_all add: fireEvent_def interacting_def split: option.splits)

lemma fireEvent_fired [simp]: "fired (stateOf (fireEvent ie s)) = fired s"
  by (simp add: fireEvent_def split: option.splits)

lemma stop_frame [simp]:
  "pointers (self (stop s)) = pointers (self s)"
  "pointerIds (self (stop s)) = pointerIds (self s)"
  "downTargets (self (stop s)) = downTargets (self s)"
  "downTimes (self (stop s)) = downTimes (self s)"
  "pointerType (self (stop s)) = pointerType (self s)"
  "simulation (self (stop s)) = simulation (self s)"
  "pointerIsDown (self (stop s)) = pointerIsDown (self s)"
  "pointerWasMoved (self (stop s)) = pointerWasMoved (self s)"
  "prevCoords (self (stop s)) = prevCoords (self s)"
  "curCoords (self (stop s)) = curCoords (self s)"
  "startCoords (self (stop s)) = startCoords (self s)"
  "pointerDelta (self (stop s)) = pointerDelta (self s)"
  "priv_ending (self (stop s)) = priv_ending (self s)"
  by (simp_all add: stop_def Let_def)

lemma stop_effect [simp]:
  "priv_interacting (self (stop s)) = False"
  "interacting (stop s) = False"
  "name (prepared (self (stop s))) = None"
  "target (self (stop s)) = None"
  "element (self (stop s)) = None"
  "fired (stop s) = fired s @ [mkSignal ''stop'' noArg s]"
  "delivered (stop s) = delivered s"
  by (simp_all add: stop_def Let_def interacting_def)

lemma doMove_frame [simp]:
  "pointers (self (stateOf (doMove E g s))) = pointers (self s)"
  "pointerIds (self (stateOf (doMove E g s))) = pointerIds (self s)"
  "downTargets (self (stateOf (doMove E g s))) = downTargets (self s)"
  "downTimes (self (stateOf (doMove E g s))) = downTimes (self s)"
  "pointerType (self (stateOf (doMove E g s))) = pointerType (self s)"
  "simulation (self (stateOf (doMove E g s))) = simulation (self s)"
  "pointerIsDown (self (stateOf (doMove E g s))) = pointerIsDown (self s)"
  "pointerWasMoved (self (stateOf (doMove E g s))) = pointerWasMoved (self s)"
  "prevCoords (self (stateOf (doMove E g s))) = prevCoords (self s)"
  "curCoords (self (stateOf (doMove E g s))) = curCoords (self s)"
  "startCoords (self (stateOf (doMove E g s))) = startCoords (self s)"
  "pointerDelta (self (stateOf (doMove E g s))) = pointerDelta (self s)"
  "priv_interacting (self (stateOf (doMove E g s))) = priv_interacting (self s)"
  "priv_ending (self (stateOf (doMove E g s))) = priv_ending (self s)"
  "prepared (self (stateOf (doMove E g s))) = prepared (self s)"
  "target (self (stateOf (doMove E g s))) = target (self s)"
  "element (self (stateOf (doMove E g s))) = element (self s)"
  "interacting (stateOf (doMove E g s)) = interacting s"
  by (simp_all add: doMove_def Let_def stateOf_andThen interacting_def)

lemma end_op_frame [simp]:
  "pointers (self (stateOf (end_op E g s))) = pointers (self s)"
  "pointerIds (self (stateOf (end_op E g s))) = pointerIds (self s)"
  "downTargets (self (stateOf (end_op E g s))) = downTargets (self s)"
  "downTimes (self (stateOf (end_op E g s))) = downTimes (self s)"
  "pointerType (self (stateOf (end_op E g s))) = pointerType (self s)"
  "simulation (self (stateOf (end_op E g s))) = simulation (self s)"
  "pointerIsDown (self (stateOf (end_op E g s))) = pointerIsDown (self s)"
  "pointerWasMoved (self (stateOf (end_op E g s))) = pointerWasMoved (self s)"
  "prevCoords (self (stateOf (end_op E g s))) = prevCoords (self s)"
  "curCoords (self (stateOf (end_op E g s))) = curCoords (self s)"
  "startCoords (self (stateOf (end_op E g s))) = startCoords (self s)"
  "pointerDelta (self (stateOf (end_op E g s))) = pointerDelta (self s)"
  by (simp_all add: end_op_def Let_def stateOf_andThen interacting_def)

lemma start_frame [simp]:
  "pointers (self (stateOf (start act tg el s))) = pointers (self s)"
  "pointerIds (self (stateOf (start act tg el s))) = pointerIds (self s)"
  "downTargets (self (stateOf (start act tg el s))) = downTargets (self s)"
  "downTimes (self (stateOf (start act tg el s))) = downTimes (self s)"
  "pointerType (self (stateOf (start act tg el s))) = pointerType (self s)"
  "simulation (self (stateOf (start act tg el s))) = simulation (self s)"
  "pointerIsDown (self (stateOf (start act tg el s))) = pointerIsDown (self s)"
  "pointerWasMoved (self (stateOf (start act tg el s))) = pointerWasMoved (self s)"
  "prevCoords (self (stateOf (start act tg el s))) = prevCoords (self s)"
  "curCoords (self (stateOf (start act tg el s))) = curCoords (self s)"
  "startCoords (self (stateOf (start act tg el s))) = startCoords (self s)"
  "pointerDelta (self (stateOf (start act tg el s))) = pointerDelta (self s)"
  "priv_ending (self (stateOf (start act tg el s))) = priv_ending (self s)"
  by (simp_all add: start_def Let_def stateOf_andThen interacting_def)

lemma removePointer_frame [simp]:
  "pointerType (self (removePointer p ev s)) = pointerType (self s)"
  "simulation (self (removePointer p ev s)) = simulation (self s)"
  "pointerIsDown (self (removePointer p ev s)) = pointerIsDown (self s)"
  "pointerWasMoved (self (removePointer p ev s)) = pointerWasMoved (self s)"
  "prevCoords (self (removePointer p ev s)) = prevCoords (self s)"
  "curCoords (self (removePointer p ev s)) = curCoords (self s)"
  "startCoords (self (removePointer p ev s)) = startCoords (self s)"
  "pointerDelta (self (removePointer p ev s)) = pointerDelta (self s)"
  "priv_interacting (self (removePointer p ev s)) = priv_interacting (self s)"
  "priv_ending (self (removePointer p ev s)) = priv_ending (self s)"
  "prepared (self (removePointer p ev s)) = prepared (self s)"
  "target (self (removePointer p ev s)) = target (self s)"
  "element (self (removePointer p ev s)) = element (self s)"
  "interacting (removePointer p ev s) = interacting s"
  "delivered (removePointer p ev s) = delivered s"
  by (simp_all add: removePointer_def Let_def interacting_def)

lemma updatePointer_frame [simp]:
  "pointerType (self (snd (updatePointer E p ev et down s))) = pointerType (self s)"
  "simulation (self (snd (updatePointer E p ev et down s))) = simulation (self s)"
  "pointerDelta (self (snd (updatePointer E p ev et down s))) = pointerDelta (self s)"
  "priv_interacting (self (snd (updatePointer E p ev et down s))) = priv_interacting (self s)"
  "priv_ending (self (snd (updatePointer E p ev et down s))) = priv_ending (self s)"
  "prepared (self (snd (updatePointer E p ev et down s))) = prepared (self s)"
  "target (self (snd (updatePointer E p ev et down s))) = target (self s)"
  "element (self (snd (updatePointer E p ev et down s))) = element (self s)"
  "interacting (snd (updatePointer E p ev et down s)) = interacting s"
  "delivered (snd (updatePointer E p ev et down s)) = delivered s"
  by (simp_all add: updatePointer_def Let_def interacting_def)

lemma updatePointer_wasMoved:
  "pointerWasMoved (self (snd (updatePointer E p ev et down s))) =
     (if down \<and> \<not> interacting s then False else pointerWasMoved (self s))"
  by (simp add: updatePointer_def Let_def interacting_def)

lemma updatePointer_not_down [simp]:
  "pointerIsDown (self (snd (updatePointer E p ev et False s))) = pointerIsDown (self s)"
  "pointerWasMoved (self (snd (updatePointer E p ev et False s))) = pointerWasMoved (self s)"
  "prevCoords (self (snd (updatePointer E p ev et False s))) = prevCoords (self s)"
  "curCoords (self (snd (updatePointer E p ev et False s))) = curCoords (self s)"
  "startCoords (self (snd (updatePointer E p ev et False s))) = startCoords (self s)"
  "downTargets (self (snd (updatePointer E p ev et False s))) = downTargets (self s)"
  "downTimes (self (snd (updatePointer E p ev et False s))) = downTimes (self s)"
  "fired (snd (updatePointer E p ev et False s)) = fired s"
  by (simp_all add: updatePointer_def Let_def)

section \<open>Facts about the sample inputs\<close>

lemma sampleSetCoords_Some [simp]:
  "sampleSetCoords t (Some p # ps) = \<lparr> page = pagePos p, client = clientPos p, timeStamp = t \<rparr>"
  by (simp add: sampleSetCoords_def)

lemma sampleDown_self:
  "self sampleDown =
     (newInteractionObject ''touch'')\<lparr>
        pointers := [Some (samplePointer 1 0 0)], pointerIds := [Some 1],
        downTargets := [Some 1], downTimes := [Some 10],
        prevCoords := sampleSetCoords 10 [Some (samplePointer 1 0 0)],
        curCoords := sampleSetCoords 10 [Some (samplePointer 1 0 0)],
        startCoords := sampleSetCoords 10 [Some (samplePointer 1 0 0)],
        downEvent := Some (sampleEvent ''touchstart'' ''touch'' 10 (samplePointer 1 0 0)),
        downPointer := Some (samplePointer 1 0 0),
        pointerIsDown := True \<rparr>"
  by (simp add: sampleDown_def pointerDown_def updatePointer_def constructor_def
      newInteractionObject_def getPointerIndex_def indexOf_def js_set_def getPointerId_def
      samplePointer_def interacting_def Let_def sampleEnv_def)

lemma sampleDragging_facts:
  "interacting sampleDragging"
  "target (self sampleDragging) = Some 5"
  "name (prepared (self sampleDragging)) = Some ''drag''"
  by (simp_all add: sampleDragging_def start_def sampleDown_self newInteractionObject_def
      interacting_def sampleAction_def Let_def stateOf_andThen copyAction_def)

section \<open>The preconditions of \<^verbatim>\<open>start\<close>\<close>

text \<open>
  Claim C1. A call \<^verbatim>\<open>start(action, target, element)\<close> on a session that is already
  interacting, or whose \<^verbatim>\<open>pointerIsDown\<close> is false, or that holds fewer than 2 contact
  identifiers for a \<^verbatim>\<open>gesture\<close> action (fewer than 1 for any other), returns the session as it
  found it: \<^verbatim>\<open>_interacting\<close>, \<^verbatim>\<open>prepared\<close>, \<^verbatim>\<open>target\<close> and \<^verbatim>\<open>element\<close> keep their values, and
  nothing is fired on the bus, so no \<^verbatim>\<open>action-start\<close>.
\<close>

theorem start_unmet_precondition_noop:
  "interacting s \<or> \<not> pointerIsDown (self s)
     \<or> length (pointerIds (self s)) < (if name act = Some ''gesture'' then 2 else 1)
   \<Longrightarrow> start act tg el s = Returned s
       \<and> fired (stateOf (start act tg el s)) = fired s
       \<and> interacting (stateOf (start act tg el s)) = interacting s
       \<and> prepared (self (stateOf (start act tg el s))) = prepared (self s)
       \<and> target (self (stateOf (start act tg el s))) = target (self s)
       \<and> element (self (stateOf (start act tg el s))) = element (self s)"
  by (auto simp: start_def)

text \<open>A gesture asked of a session that holds one contact.\<close>

theorem start_unmet_precondition_noop_witness:
  "length (pointerIds (self sampleDown)) < 2
   \<and> \<not> interacting sampleDown
   \<and> start (sampleAction ''gesture'') 5 6 sampleDown = Returned sampleDown
   \<and> fired (stateOf (start (sampleAction ''gesture'') 5 6 sampleDown)) = fired sampleDown"
  using start_unmet_precondition_noop [of sampleDown "sampleAction ''gesture''" 5 6]
  by (simp add: sampleDown_self sampleAction_def newInteractionObject_def interacting_def)

section \<open>A vetoed \<^verbatim>\<open>end\<close>\<close>

lemma end_op_veto:
  assumes "interacting s" "\<not> listeners E (beforeEndFiring g s)"
  shows "end_op E g s = Returned (s\<lparr> self := (self s)\<lparr> priv_ending := False \<rparr>,
                                   fired := fired s @ [beforeEndFiring g s] \<rparr>)"
  using assms
  by (simp add: end_op_def Let_def interacting_def beforeEndFiring_def fireResult_def fire_def)

lemma end_op_completes:
  assumes "interacting s" "listeners E (beforeEndFiring g s)" "target (self s) \<noteq> None"
  shows "returned (end_op E g s)"
    and "\<not> interacting (stateOf (end_op E g s))"
    and "map sigName (fired (stateOf (end_op E g s))) =
           map sigName (fired s) @ [''before-action-end'', ''action-end'', ''after-action-end'', ''stop'']"
  using assms
  by (auto simp add: end_op_def Let_def interacting_def beforeEndFiring_def fireResult_def
      returned_andThen stateOf_andThen)

text \<open>
  Claim C2. On an interacting session, when the listeners of \<^verbatim>\<open>before-action-end\<close> return
  the false sentinel during \<^verbatim>\<open>end(event)\<close>, the call returns a session that differs from
  the one it found in two places only: the guard \<^verbatim>\<open>_ending\<close> is false, and the bus holds
  one more firing, the \<^verbatim>\<open>before-action-end\<close>. So \<^verbatim>\<open>_interacting\<close> is still true, \<^verbatim>\<open>prepared\<close>,
  \<^verbatim>\<open>target\<close> and \<^verbatim>\<open>element\<close> are unchanged, and neither \<^verbatim>\<open>action-end\<close> nor \<^verbatim>\<open>after-action-end\<close>
  nor the \<^verbatim>\<open>stop\<close> of \<^verbatim>\<open>stop()\<close> was fired. A later \<^verbatim>\<open>end\<close> whose listeners do not veto
  completes the interaction (the session has the target that \<^verbatim>\<open>start\<close> bound): it returns,
  fires \<^verbatim>\<open>before-action-end\<close>, \<^verbatim>\<open>action-end\<close>, \<^verbatim>\<open>after-action-end\<close> and \<^verbatim>\<open>stop\<close>, and leaves the
  session not interacting.
\<close>

theorem end_veto_keeps_started:
  assumes "interacting s" and "\<not> listeners E (beforeEndFiring given s)"
  shows "end_op E given s =
           Returned (s\<lparr> self := (self s)\<lparr> priv_ending := False \<rparr>,
                        fired := fired s @ [beforeEndFiring given s] \<rparr>)
         \<and> sigName (beforeEndFiring given s) = ''before-action-end''
         \<and> interacting (stateOf (end_op E given s))
         \<and> (target (self s) \<noteq> None
              \<and> listeners E2 (beforeEndFiring given2 (stateOf (end_op E given s)))
            \<longrightarrow> returned (end_op E2 given2 (stateOf (end_op E given s)))
              \<and> \<not> interacting (stateOf (end_op E2 given2 (stateOf (end_op E given s))))
              \<and> map sigName (fired (stateOf (end_op E2 given2 (stateOf (end_op E given s))))) =
                  map sigName (fired s) @
                    [''before-action-end'',
                     ''before-action-end'', ''action-end'', ''after-action-end'', ''stop''])"
proof -
  let ?s1 = "s\<lparr> self := (self s)\<lparr> priv_ending := False \<rparr>,
               fired := fired s @ [beforeEndFiring given s] \<rparr>"
  have veto: "end_op E given s = Returned ?s1"
    using assms by (rule end_op_veto)
  have nm: "sigName (beforeEndFiring given s) = ''before-action-end''"
    by (simp add: beforeEndFiring_def Let_def)
  have still: "interacting ?s1"
    using assms(1) by (simp add: interacting_def)
  have later: "returned (end_op E2 given2 ?s1)
      \<and> \<not> interacting (stateOf (end_op E2 given2 ?s1))
      \<and> map sigName (fired (stateOf (end_op E2 given2 ?s1))) =
          map sigName (fired s) @
            [''before-action-end'',
             ''before-action-end'', ''action-end'', ''after-action-end'', ''stop'']"
    if "target (self s) \<noteq> None" "listeners E2 (beforeEndFiring given2 ?s1)"
    using end_op_completes [OF still that(2)] that(1) nm by simp
  show ?thesis
    using veto nm still later by simp
qed

text \<open>The drag of the sample session, vetoed once and then ended.\<close>

theorem end_veto_keeps_started_witness:
  "interacting sampleDragging
   \<and> \<not> listeners (sampleEnv 20 False) (beforeEndFiring None sampleDragging)
   \<and> target (self sampleDragging) \<noteq> None
   \<and> listeners (sampleEnv 30 True)
        (beforeEndFiring None (stateOf (end_op (sampleEnv 20 False) None sampleDragging)))
   \<and> interacting (stateOf (end_op (sampleEnv 20 False) None sampleDragging))
   \<and> returned (end_op (sampleEnv 30 True) None
                  (stateOf (end_op (sampleEnv 20 False) None sampleDragging)))
   \<and> \<not> interacting (stateOf (end_op (sampleEnv 30 True) None
                  (stateOf (end_op (sampleEnv 20 False) None sampleDragging))))"
  using end_veto_keeps_started [of sampleDragging "sampleEnv 20 False" None
          "sampleEnv 30 True" None]
  by (clarsimp simp add: sampleDragging_facts sampleEnv_def)

section \<open>The blocks of \<^verbatim>\<open>pointerMove\<close>\<close>

lemma moveSample_frame [simp]:
  "pointerIsDown (self (moveSample E p ev et s)) = pointerIsDown (self s)"
  "pointerWasMoved (self (moveSample E p ev et s)) = pointerWasMoved (self s)"
  "prevCoords (self (moveSample E p ev et s)) = prevCoords (self s)"
  "startCoords (self (moveSample E p ev et s)) = startCoords (self s)"
  "downTargets (self (moveSample E p ev et s)) = downTargets (self s)"
  "downTimes (self (moveSample E p ev et s)) = downTimes (self s)"
  "pointerType (self (moveSample E p ev et s)) = pointerType (self s)"
  "simulation (self (moveSample E p ev et s)) = simulation (self s)"
  "pointerDelta (self (moveSample E p ev et s)) = pointerDelta (self s)"
  "priv_interacting (self (moveSample E p ev et s)) = priv_interacting (self s)"
  "priv_ending (self (moveSample E p ev et s)) = priv_ending (self s)"
  "prepared (self (moveSample E p ev et s)) = prepared (self s)"
  "target (self (moveSample E p ev et s)) = target (self s)"
  "element (self (moveSample E p ev et s)) = element (self s)"
  "interacting (moveSample E p ev et s) = interacting s"
  "fired (moveSample E p ev et s) = fired s"
  "delivered (moveSample E p ev et s) = delivered s"
  by (simp_all add: moveSample_def Let_def interacting_def)

lemma moveSample_arrays:
  "pointers (self (moveSample E p ev et s)) =
     (if simulation (self s) then pointers (self s)
      else pointers (self (snd (updatePointer E p ev et False s))))"
  "pointerIds (self (moveSample E p ev et s)) =
     (if simulation (self s) then pointerIds (self s)
      else pointerIds (self (snd (updatePointer E p ev et False s))))"
  "curCoords (self (moveSample E p ev et s)) =
     (if simulation (self s) then curCoords (self s)
      else setCoords E (pointers (self (snd (updatePointer E p ev et False s)))))"
  by (simp_all add: moveSample_def Let_def)

lemma registerMovement_frame [simp]:
  "pointers (self (registerMovement s)) = pointers (self s)"
  "pointerIds (self (registerMovement s)) = pointerIds (self s)"
  "downTargets (self (registerMovement s)) = downTargets (self s)"
  "downTimes (self (registerMovement s)) = downTimes (self s)"
  "pointerType (self (registerMovement s)) = pointerType (self s)"
  "simulation (self (registerMovement s)) = simulation (self s)"
  "pointerIsDown (self (registerMovement s)) = pointerIsDown (self s)"
  "prevCoords (self (registerMovement s)) = prevCoords (self s)"
  "curCoords (self (registerMovement s)) = curCoords (self s)"
  "startCoords (self (registerMovement s)) = startCoords (self s)"
  "pointerDelta (self (registerMovement s)) = pointerDelta (self s)"
  "priv_interacting (self (registerMovement s)) = priv_interacting (self s)"
  "priv_ending (self (registerMovement s)) = priv_ending (self s)"
  "prepared (self (registerMovement s)) = prepared (self s)"
  "target (self (registerMovement s)) = target (self s)"
  "element (self (registerMovement s)) = element (self s)"
  "interacting (registerMovement s) = interacting s"
  "fired (registerMovement s) = fired s"
  "delivered (registerMovement s) = delivered s"
  by (simp_all add: registerMovement_def interacting_def)

lemma registerMovement_wasMoved:
  "pointerWasMoved (self (registerMovement s)) =
     (if pointerIsDown (self s) \<and> \<not> pointerWasMoved (self s)
      then hypot (clientDx (self s)) (clientDy (self s)) > pointerMoveTolerance
      else pointerWasMoved (self s))"
  by (simp add: registerMovement_def toleranceChecked_def)

lemma doMove_fired:
  "\<exists>rest. fired (stateOf (doMove E g s)) = fired s @ rest"
  by (simp add: doMove_def Let_def stateOf_andThen)

lemma pointerMove_duplicate:
  assumes "duplicateMove (self (moveSample E p ev et s))"
  shows "pointerMove E p ev et s =
           Returned (fire ''move''
             (moveSignalArg p ev et (moveSample E p ev et s) (registerMovement (moveSample E p ev et s)))
             (registerMovement (moveSample E p ev et s)))"
  using assms by (simp add: pointerMove_def Let_def)

lemma pointerMove_curCoords:
  "curCoords (self (stateOf (pointerMove E p ev et s))) = curCoords (self (moveSample E p ev et s))"
  by (simp add: pointerMove_def Let_def stateOf_andThen)

lemma pointerMove_wasMoved:
  "pointerWasMoved (self (stateOf (pointerMove E p ev et s))) =
     pointerWasMoved (self (registerMovement (moveSample E p ev et s)))"
  by (simp add: pointerMove_def Let_def stateOf_andThen)

lemma pointerMove_pointerDelta:
  "pointerDelta (self (stateOf (pointerMove E p ev et s))) =
     (if duplicateMove (self (moveSample E p ev et s)) then pointerDelta (self s)
      else setCoordDeltas (prevCoords (self s)) (curCoords (self (moveSample E p ev et s))))"
  by (simp add: pointerMove_def Let_def stateOf_andThen)

lemma pointerMove_prevCoords:
  "prevCoords (self (stateOf (pointerMove E p ev et s))) =
     (if \<not> duplicateMove (self (moveSample E p ev et s))
         \<and> returned (pointerMove E p ev et s)
         \<and> pointerWasMoved (self (stateOf (pointerMove E p ev et s)))
      then curCoords (self (stateOf (pointerMove E p ev et s)))
      else prevCoords (self s))"
  by (simp add: pointerMove_def Let_def stateOf_andThen returned_andThen)


lemma pointerMove_fired_first:
  assumes "\<not> duplicateMove (self (moveSample E p ev et s))"
  shows "\<exists>rest. fired (stateOf (pointerMove E p ev et s)) =
           fired s @
           mkSignal ''move''
             (moveSignalArg p ev et (moveSample E p ev et s) (registerMovement (moveSample E p ev et s)))
             ((registerMovement (moveSample E p ev et s))\<lparr> self :=
                (self (registerMovement (moveSample E p ev et s)))\<lparr> pointerDelta :=
                   setCoordDeltas (prevCoords (self s)) (curCoords (self (moveSample E p ev et s))) \<rparr> \<rparr>)
           # rest"
proof -
  let ?s2 = "registerMovement (moveSample E p ev et s)"
  let ?arg = "moveSignalArg p ev et (moveSample E p ev et s) ?s2"
  let ?s3 = "?s2\<lparr> self := (self ?s2)\<lparr> pointerDelta :=
                   setCoordDeltas (prevCoords (self s)) (curCoords (self (moveSample E p ev et s))) \<rparr> \<rparr>"
  let ?s4 = "fire ''move'' ?arg ?s3"
  obtain rest where r: "fired (stateOf (doMove E (Some ?arg) ?s4)) = fired ?s4 @ rest"
    using doMove_fired by blast
  show ?thesis
    using assms r
    by (simp add: pointerMove_def Let_def stateOf_andThen)
qed

section \<open>Duplicate samples\<close>

text \<open>
  Claim C3. A \<^verbatim>\<open>pointerMove\<close> whose updated current coordinates equal the previous snapshot
  in page space and in client space (\<open>duplicateMove\<close> of the session after the sample was
  taken) returns with \<^verbatim>\<open>pointerDelta\<close> as it was, and fires exactly one signal, \<^verbatim>\<open>move\<close> with
  \<^verbatim>\<open>duplicate: true\<close>: \<^verbatim>\<open>doMove\<close> is not invoked, so neither \<^verbatim>\<open>before-action-move\<close> nor
  \<^verbatim>\<open>action-move\<close> is fired, whether or not the session is interacting. For any other sample
  the first signal fired is \<^verbatim>\<open>move\<close> with \<^verbatim>\<open>duplicate: false\<close>, and the session its listeners
  see already holds the delta recomputed from the previous and the current snapshot.
\<close>

theorem duplicate_move_suppressed:
  "(duplicateMove (self (moveSample E p ev et s)) \<longrightarrow>
      returned (pointerMove E p ev et s)
      \<and> pointerDelta (self (stateOf (pointerMove E p ev et s))) = pointerDelta (self s)
      \<and> (\<exists>f. fired (stateOf (pointerMove E p ev et s)) = fired s @ [f]
              \<and> sigName f = ''move'' \<and> a_duplicate (sigArg f) = Some True))
   \<and> (\<not> duplicateMove (self (moveSample E p ev et s)) \<longrightarrow>
      (\<exists>f rest. fired (stateOf (pointerMove E p ev et s)) = fired s @ f # rest
              \<and> sigName f = ''move'' \<and> a_duplicate (sigArg f) = Some False
              \<and> map_option pointerDelta (snapshot f) =
                  Some (setCoordDeltas (prevCoords (self s))
                          (curCoords (self (moveSample E p ev et s))))))"
proof (intro conjI impI)
  assume d: "duplicateMove (self (moveSample E p ev et s))"
  show "returned (pointerMove E p ev et s)"
    by (simp add: pointerMove_duplicate [OF d])
  show "pointerDelta (self (stateOf (pointerMove E p ev et s))) = pointerDelta (self s)"
    using d by (simp add: pointerMove_pointerDelta)
  show "\<exists>f. fired (stateOf (pointerMove E p ev et s)) = fired s @ [f]
              \<and> sigName f = ''move'' \<and> a_duplicate (sigArg f) = Some True"
    using d by (simp add: pointerMove_duplicate [OF d] moveSignalArg_def)
next
  assume d: "\<not> duplicateMove (self (moveSample E p ev et s))"
  from pointerMove_fired_first [OF d]
  show "\<exists>f rest. fired (stateOf (pointerMove E p ev et s)) = fired s @ f # rest
              \<and> sigName f = ''move'' \<and> a_duplicate (sigArg f) = Some False
              \<and> map_option pointerDelta (snapshot f) =
                  Some (setCoordDeltas (prevCoords (self s))
                          (curCoords (self (moveSample E p ev et s))))"
    using d by (auto simp add: moveSignalArg_def)
qed

lemma doMove_returned: "target (self s) \<noteq> None \<Longrightarrow> returned (doMove E g s)"
  by (simp add: doMove_def Let_def returned_andThen)

lemma pointerMove_returned:
  "\<not> interacting s \<or> target (self s) \<noteq> None \<Longrightarrow> returned (pointerMove E p ev et s)"
  by (auto simp add: pointerMove_def Let_def returned_andThen doMove_returned interacting_def)

section \<open>Rolling the previous snapshot forward\<close>

text \<open>
  Claim C7. After a \<^verbatim>\<open>pointerMove\<close> the previous snapshot \<^verbatim>\<open>prevCoords\<close> is the current
  snapshot exactly when the sample was not a duplicate, \<^verbatim>\<open>pointerWasMoved\<close> is true after
  that move's tolerance check, and the call returned; in every other case, so while
  \<^verbatim>\<open>pointerWasMoved\<close> is false and on every duplicate, \<^verbatim>\<open>prevCoords\<close> is what it was before
  the call. The call returns whenever the session is not interacting or has a target.
\<close>

theorem prevCoords_roll_forward:
  "prevCoords (self (stateOf (pointerMove E p ev et s))) =
     (if \<not> duplicateMove (self (moveSample E p ev et s))
         \<and> pointerWasMoved (self (registerMovement (moveSample E p ev et s)))
         \<and> returned (pointerMove E p ev et s)
      then curCoords (self (moveSample E p ev et s))
      else prevCoords (self s))
   \<and> (\<not> interacting s \<or> target (self s) \<noteq> None \<longrightarrow> returned (pointerMove E p ev et s))"
  using pointerMove_returned [of s E p ev et]
  by (simp add: pointerMove_prevCoords pointerMove_wasMoved pointerMove_curCoords)

lemma samplePointer_simps [simp]:
  "pointerId (samplePointer i a b) = i"
  "pagePos (samplePointer i a b) = \<lparr> xval = a, yval = b \<rparr>"
  "clientPos (samplePointer i a b) = \<lparr> xval = a, yval = b \<rparr>"
  by (simp_all add: samplePointer_def)

lemma sampleDragging_fields:
  "pointers (self sampleDragging) = [Some (samplePointer 1 0 0)]"
  "pointerIds (self sampleDragging) = [Some 1]"
  "downTargets (self sampleDragging) = [Some 1]"
  "downTimes (self sampleDragging) = [Some 10]"
  "pointerType (self sampleDragging) = ''touch''"
  "simulation (self sampleDragging) = False"
  "pointerIsDown (self sampleDragging) = True"
  "pointerWasMoved (self sampleDragging) = False"
  "prevCoords (self sampleDragging) = sampleSetCoords 10 [Some (samplePointer 1 0 0)]"
  "curCoords (self sampleDragging) = sampleSetCoords 10 [Some (samplePointer 1 0 0)]"
  "startCoords (self sampleDragging) = sampleSetCoords 10 [Some (samplePointer 1 0 0)]"
  by (simp_all add: sampleDragging_def sampleDown_self newInteractionObject_def)

lemma sample_move_curCoords:
  "curCoords (self (moveSample (sampleEnv t ok) (samplePointer 1 a b) ev et sampleDragging)) =
     \<lparr> page = \<lparr> xval = a, yval = b \<rparr>, client = \<lparr> xval = a, yval = b \<rparr>, timeStamp = t \<rparr>"
  by (simp add: moveSample_arrays sampleDragging_fields updatePointer_def Let_def
      getPointerIndex_def indexOf_def getPointerId_def js_set_def sampleEnv_def)

lemma sample_move_duplicate:
  "duplicateMove (self (moveSample (sampleEnv t ok) (samplePointer 1 a b) ev et sampleDragging))
     = (a = 0 \<and> b = 0)"
  by (auto simp add: duplicateMove_def sample_move_curCoords sampleDragging_fields)

text \<open>The dragging sample session: a move to where it already is, and a move to \<open>(5, 5)\<close>.\<close>

theorem duplicate_move_suppressed_witness:
  "duplicateMove (self (moveSample (sampleEnv 20 True) (samplePointer 1 0 0)
      (sampleEvent ''touchmove'' ''touch'' 20 (samplePointer 1 0 0)) 1 sampleDragging))
   \<and> interacting sampleDragging
   \<and> (\<exists>f. fired (stateOf (pointerMove (sampleEnv 20 True) (samplePointer 1 0 0)
               (sampleEvent ''touchmove'' ''touch'' 20 (samplePointer 1 0 0)) 1 sampleDragging))
             = fired sampleDragging @ [f]
           \<and> sigName f = ''move'' \<and> a_duplicate (sigArg f) = Some True)
   \<and> \<not> duplicateMove (self (moveSample (sampleEnv 20 True) (samplePointer 1 5 5)
      (sampleEvent ''touchmove'' ''touch'' 20 (samplePointer 1 5 5)) 1 sampleDragging))
   \<and> (\<exists>f rest. fired (stateOf (pointerMove (sampleEnv 20 True) (samplePointer 1 5 5)
               (sampleEvent ''touchmove'' ''touch'' 20 (samplePointer 1 5 5)) 1 sampleDragging))
             = fired sampleDragging @ f # rest
           \<and> sigName f = ''move'' \<and> a_duplicate (sigArg f) = Some False)"
  using duplicate_move_suppressed [of "sampleEnv 20 True" "samplePointer 1 0 0"
          "sampleEvent ''touchmove'' ''touch'' 20 (samplePointer 1 0 0)" 1 sampleDragging]
        duplicate_move_suppressed [of "sampleEnv 20 True" "samplePointer 1 5 5"
          "sampleEvent ''touchmove'' ''touch'' 20 (samplePointer 1 5 5)" 1 sampleDragging]
  by (auto simp add: sample_move_duplicate sampleDragging_facts)

lemma hypot_gt_tolerance: "(hypot a b > pointerMoveTolerance) = (a * a + b * b > 1)"
  by (simp add: hypot_def pointerMoveTolerance_def)

lemma sample_move_registered:
  "pointerWasMoved (self (registerMovement
      (moveSample (sampleEnv t ok) (samplePointer 1 a b) ev et sampleDragging)))
     = (a * a + b * b > 1)"
  by (simp add: registerMovement_wasMoved sampleDragging_fields
      hypot_gt_tolerance clientDx_def clientDy_def sample_move_curCoords)

text \<open>A move to \<open>(5, 5)\<close> rolls the snapshot forward; a move to \<open>(1, 0)\<close>, within the
  tolerance, does not.\<close>

theorem prevCoords_roll_forward_witness:
  "prevCoords (self (stateOf (pointerMove (sampleEnv 20 True) (samplePointer 1 5 5)
      (sampleEvent ''touchmove'' ''touch'' 20 (samplePointer 1 5 5)) 1 sampleDragging)))
     = \<lparr> page = \<lparr> xval = 5, yval = 5 \<rparr>, client = \<lparr> xval = 5, yval = 5 \<rparr>, timeStamp = 20 \<rparr>
   \<and> prevCoords (self (stateOf (pointerMove (sampleEnv 20 True) (samplePointer 1 1 0)
      (sampleEvent ''touchmove'' ''touch'' 20 (samplePointer 1 1 0)) 1 sampleDragging)))
     = prevCoords (self sampleDragging)"
  using prevCoords_roll_forward [of "sampleEnv 20 True" "samplePointer 1 5 5"
          "sampleEvent ''touchmove'' ''touch'' 20 (samplePointer 1 5 5)" 1 sampleDragging]
        prevCoords_roll_forward [of "sampleEnv 20 True" "samplePointer 1 1 0"
          "sampleEvent ''touchmove'' ''touch'' 20 (samplePointer 1 1 0)" 1 sampleDragging]
  by (simp add: sample_move_duplicate sample_move_registered pointerMove_returned
      sampleDragging_facts sample_move_curCoords)

section \<open>What the remaining operations leave alone\<close>

lemma pointerDown_frame [simp]:
  "pointerType (self (pointerDown E p ev et s)) = pointerType (self s)"
  "simulation (self (pointerDown E p ev et s)) = simulation (self s)"
  "pointerDelta (self (pointerDown E p ev et s)) = pointerDelta (self s)"
  "priv_interacting (self (pointerDown E p ev et s)) = priv_interacting (self s)"
  "priv_ending (self (pointerDown E p ev et s)) = priv_ending (self s)"
  "prepared (self (pointerDown E p ev et s)) = prepared (self s)"
  "target (self (pointerDown E p ev et s)) = target (self s)"
  "element (self (pointerDown E p ev et s)) = element (self s)"
  "interacting (pointerDown E p ev et s) = interacting s"
  "delivered (pointerDown E p ev et s) = delivered s"
  by (simp_all add: pointerDown_def split_beta)

lemma pointerDown_self:
  "self (pointerDown E p ev et s) = self (snd (updatePointer E p ev et True s))"
  by (simp add: pointerDown_def split_beta)

lemma pointerUp_frame [simp]:
  "pointerType (self (stateOf (pointerUp E p ev et cet s))) = pointerType (self s)"
  "simulation (self (stateOf (pointerUp E p ev et cet s))) = simulation (self s)"
  "pointerWasMoved (self (stateOf (pointerUp E p ev et cet s))) = pointerWasMoved (self s)"
  "prevCoords (self (stateOf (pointerUp E p ev et cet s))) = prevCoords (self s)"
  "curCoords (self (stateOf (pointerUp E p ev et cet s))) = curCoords (self s)"
  "startCoords (self (stateOf (pointerUp E p ev et cet s))) = startCoords (self s)"
  "pointerDelta (self (stateOf (pointerUp E p ev et cet s))) = pointerDelta (self s)"
  by (simp_all add: pointerUp_def Let_def stateOf_andThen)

lemma documentBlur_frame [simp]:
  "pointers (self (stateOf (documentBlur E ev s))) = pointers (self s)"
  "pointerIds (self (stateOf (documentBlur E ev s))) = pointerIds (self s)"
  "downTargets (self (stateOf (documentBlur E ev s))) = downTargets (self s)"
  "downTimes (self (stateOf (documentBlur E ev s))) = downTimes (self s)"
  "pointerType (self (stateOf (documentBlur E ev s))) = pointerType (self s)"
  "simulation (self (stateOf (documentBlur E ev s))) = simulation (self s)"
  "pointerIsDown (self (stateOf (documentBlur E ev s))) = pointerIsDown (self s)"
  "pointerWasMoved (self (stateOf (documentBlur E ev s))) = pointerWasMoved (self s)"
  "prevCoords (self (stateOf (documentBlur E ev s))) = prevCoords (self s)"
  "curCoords (self (stateOf (documentBlur E ev s))) = curCoords (self s)"
  "startCoords (self (stateOf (documentBlur E ev s))) = startCoords (self s)"
  "pointerDelta (self (stateOf (documentBlur E ev s))) = pointerDelta (self s)"
  by (simp_all add: documentBlur_def Let_def stateOf_andThen)

lemma pointerMove_frame [simp]:
  "pointerType (self (stateOf (pointerMove E p ev et s))) = pointerType (self s)"
  "simulation (self (stateOf (pointerMove E p ev et s))) = simulation (self s)"
  "pointerIsDown (self (stateOf (pointerMove E p ev et s))) = pointerIsDown (self s)"
  "startCoords (self (stateOf (pointerMove E p ev et s))) = startCoords (self s)"
  "downTargets (self (stateOf (pointerMove E p ev et s))) = downTargets (self s)"
  "downTimes (self (stateOf (pointerMove E p ev et s))) = downTimes (self s)"
  "priv_interacting (self (stateOf (pointerMove E p ev et s))) = priv_interacting (self s)"
  "priv_ending (self (stateOf (pointerMove E p ev et s))) = priv_ending (self s)"
  "prepared (self (stateOf (pointerMove E p ev et s))) = prepared (self s)"
  "target (self (stateOf (pointerMove E p ev et s))) = target (self s)"
  "element (self (stateOf (pointerMove E p ev et s))) = element (self s)"
  "interacting (stateOf (pointerMove E p ev et s)) = interacting s"
  by (simp_all add: pointerMove_def Let_def stateOf_andThen interacting_def)

lemma pointerMove_wasMoved_full:
  "pointerWasMoved (self (stateOf (pointerMove E p ev et s))) =
     (if pointerIsDown (self s) \<and> \<not> pointerWasMoved (self s)
      then hypot (clientDx (self (stateOf (pointerMove E p ev et s))))
                 (clientDy (self (stateOf (pointerMove E p ev et s)))) > pointerMoveTolerance
      else pointerWasMoved (self s))"
  by (simp add: pointerMove_wasMoved registerMovement_wasMoved clientDx_def clientDy_def
      pointerMove_curCoords)

section \<open>The flag \<^verbatim>\<open>pointerWasMoved\<close>\<close>

lemma wasMoved_rises:
  assumes "\<not> pointerWasMoved (self s)" "pointerWasMoved (self (stateOf (perform E c s)))"
  shows "(\<exists>p ev et. c = PointerMove p ev et) \<and> pointerIsDown (self s)
         \<and> hypot (clientDx (self (stateOf (perform E c s))))
                 (clientDy (self (stateOf (perform E c s)))) > pointerMoveTolerance"
  using assms
  by (cases c) (simp_all add: pointerDown_self updatePointer_wasMoved pointerMove_wasMoved_full
      split: if_splits)

lemma wasMoved_falls:
  assumes "pointerWasMoved (self s)" "\<not> pointerWasMoved (self (stateOf (perform E c s)))"
  shows "isDownCall c \<and> \<not> interacting s"
  using assms
  by (cases c) (simp_all add: pointerDown_self updatePointer_wasMoved pointerMove_wasMoved_full
      split: if_splits)

lemma risings_bound:
  "\<forall>ec \<in> set cs. \<not> isDownCall (snd ec) \<Longrightarrow>
     risings (map (\<lambda>t. pointerWasMoved (self t)) (s # visited cs s))
       \<le> (if pointerWasMoved (self s) then 0 else 1)"
proof (induction cs arbitrary: s)
  case Nil
  then show ?case by simp
next
  case (Cons ec cs)
  let ?s1 = "stateOf (perform (fst ec) (snd ec) s)"
  have nd: "\<not> isDownCall (snd ec)" using Cons.prems by simp
  have mono: "pointerWasMoved (self s) \<Longrightarrow> pointerWasMoved (self ?s1)"
    using wasMoved_falls [of s "fst ec" "snd ec"] nd by blast
  have ih: "risings (map (\<lambda>t. pointerWasMoved (self t)) (?s1 # visited cs ?s1))
              \<le> (if pointerWasMoved (self ?s1) then 0 else 1)"
    using Cons.IH [of ?s1] Cons.prems by simp
  show ?case
    using ih mono
    by (cases "pointerWasMoved (self s)"; cases "pointerWasMoved (self ?s1)")
       (simp_all add: Let_def)
qed

text \<open>
  Claim C4. By one call, whichever it is, \<^verbatim>\<open>pointerWasMoved\<close> goes from false to true only
  if the call is a \<^verbatim>\<open>pointerMove\<close> on a session whose \<^verbatim>\<open>pointerIsDown\<close> is true and
  \<open>hypot\<close> of the differences of the current and the start client coordinates is
  greater than the tolerance 1; it goes from true to false only if the call is a
  pointer-down (\<^verbatim>\<open>pointerDown\<close>, or \<^verbatim>\<open>updatePointer\<close> with a true \<^verbatim>\<open>down\<close>) on a session that is
  not interacting. Along any sequence of calls without a pointer-down, that is within one
  down-cycle, the flag goes from false to true at most once.
\<close>

theorem pointerWasMoved_transitions:
  "(\<not> pointerWasMoved (self s) \<and> pointerWasMoved (self (stateOf (perform E c s))) \<longrightarrow>
      (\<exists>p ev et. c = PointerMove p ev et) \<and> pointerIsDown (self s)
      \<and> hypot (clientDx (self (stateOf (perform E c s))))
              (clientDy (self (stateOf (perform E c s)))) > 1)
   \<and> (pointerWasMoved (self s) \<and> \<not> pointerWasMoved (self (stateOf (perform E c s))) \<longrightarrow>
      isDownCall c \<and> \<not> interacting s)
   \<and> ((\<forall>ec \<in> set cs. \<not> isDownCall (snd ec)) \<longrightarrow>
      risings (map (\<lambda>t. pointerWasMoved (self t)) (s # visited cs s)) \<le> 1)"
proof (intro conjI impI)
  assume a: "\<not> pointerWasMoved (self s) \<and> pointerWasMoved (self (stateOf (perform E c s)))"
  then show "\<exists>p ev et. c = PointerMove p ev et" "pointerIsDown (self s)"
    using wasMoved_rises [of s E c] by blast+
  show "hypot (clientDx (self (stateOf (perform E c s))))
              (clientDy (self (stateOf (perform E c s)))) > 1"
    using wasMoved_rises [of s E c] a by (simp add: pointerMoveTolerance_def)
next
  assume "pointerWasMoved (self s) \<and> \<not> pointerWasMoved (self (stateOf (perform E c s)))"
  then show "isDownCall c" "\<not> interacting s"
    using wasMoved_falls [of s E c] by blast+
next
  assume "\<forall>ec \<in> set cs. \<not> isDownCall (snd ec)"
  from risings_bound [OF this, of s]
  show "risings (map (\<lambda>t. pointerWasMoved (self t)) (s # visited cs s)) \<le> 1"
    by (simp split: if_splits)
qed

lemma sampleDown_fields:
  "pointers (self sampleDown) = [Some (samplePointer 1 0 0)]"
  "pointerIds (self sampleDown) = [Some 1]"
  "downTargets (self sampleDown) = [Some 1]"
  "downTimes (self sampleDown) = [Some 10]"
  "pointerType (self sampleDown) = ''touch''"
  "simulation (self sampleDown) = False"
  "pointerIsDown (self sampleDown) = True"
  "pointerWasMoved (self sampleDown) = False"
  "interacting sampleDown = False"
  "prevCoords (self sampleDown) = sampleSetCoords 10 [Some (samplePointer 1 0 0)]"
  "curCoords (self sampleDown) = sampleSetCoords 10 [Some (samplePointer 1 0 0)]"
  "startCoords (self sampleDown) = sampleSetCoords 10 [Some (samplePointer 1 0 0)]"
  by (simp_all add: sampleDown_self newInteractionObject_def interacting_def)

lemma sampleDown_move_curCoords:
  "curCoords (self (moveSample (sampleEnv t ok) (samplePointer 1 a b) ev et sampleDown)) =
     \<lparr> page = \<lparr> xval = a, yval = b \<rparr>, client = \<lparr> xval = a, yval = b \<rparr>, timeStamp = t \<rparr>"
  by (simp add: moveSample_arrays sampleDown_fields updatePointer_def Let_def
      getPointerIndex_def indexOf_def getPointerId_def js_set_def sampleEnv_def)

lemma sampleDown_moved:
  "pointerWasMoved (self (stateOf (pointerMove (sampleEnv t ok) (samplePointer 1 a b) ev et sampleDown)))
     = (a * a + b * b > 1)"
  by (simp add: pointerMove_wasMoved registerMovement_wasMoved sampleDown_fields
      hypot_gt_tolerance clientDx_def clientDy_def sampleDown_move_curCoords)

lemma sampleDragging_moved:
  "pointerWasMoved (self (stateOf (pointerMove (sampleEnv t ok) (samplePointer 1 a b) ev et sampleDragging)))
     = (a * a + b * b > 1)"
  by (simp add: pointerMove_wasMoved sample_move_registered)

text \<open>The dragging sample session moved to \<open>(5, 5)\<close> and then to \<open>(9, 9)\<close>; and the
  sample session with one contact down, moved to \<open>(5, 5)\<close>, on which a second finger goes
  down.\<close>

theorem pointerWasMoved_transitions_witness:
  "\<not> pointerWasMoved (self sampleDragging)
   \<and> pointerWasMoved (self (stateOf (perform (sampleEnv 20 True)
        (PointerMove (samplePointer 1 5 5)
           (sampleEvent ''touchmove'' ''touch'' 20 (samplePointer 1 5 5)) 1) sampleDragging)))
   \<and> pointerIsDown (self sampleDragging)
   \<and> hypot (clientDx (self (stateOf (perform (sampleEnv 20 True)
        (PointerMove (samplePointer 1 5 5)
           (sampleEvent ''touchmove'' ''touch'' 20 (samplePointer 1 5 5)) 1) sampleDragging))))
        (clientDy (self (stateOf (perform (sampleEnv 20 True)
        (PointerMove (samplePointer 1 5 5)
           (sampleEvent ''touchmove'' ''touch'' 20 (samplePointer 1 5 5)) 1) sampleDragging)))) > 1
   \<and> risings (map (\<lambda>t. pointerWasMoved (self t))
        (sampleDragging # visited
           [(sampleEnv 20 True, PointerMove (samplePointer 1 5 5)
               (sampleEvent ''touchmove'' ''touch'' 20 (samplePointer 1 5 5)) 1),
            (sampleEnv 30 True, PointerMove (samplePointer 1 9 9)
               (sampleEvent ''touchmove'' ''touch'' 30 (samplePointer 1 9 9)) 1)]
           sampleDragging)) \<le> 1
   \<and> pointerWasMoved (self (stateOf (pointerMove (sampleEnv 20 True) (samplePointer 1 5 5)
        (sampleEvent ''touchmove'' ''touch'' 20 (samplePointer 1 5 5)) 1 sampleDown)))
   \<and> \<not> pointerWasMoved (self (stateOf (perform (sampleEnv 30 True)
        (PointerDown (samplePointer 2 7 7)
           (sampleEvent ''touchstart'' ''touch'' 30 (samplePointer 2 7 7)) 1)
        (stateOf (pointerMove (sampleEnv 20 True) (samplePointer 1 5 5)
           (sampleEvent ''touchmove'' ''touch'' 20 (samplePointer 1 5 5)) 1 sampleDown)))))
   \<and> \<not> interacting (stateOf (pointerMove (sampleEnv 20 True) (samplePointer 1 5 5)
        (sampleEvent ''touchmove'' ''touch'' 20 (samplePointer 1 5 5)) 1 sampleDown))"
  using pointerWasMoved_transitions [of sampleDragging "sampleEnv 20 True"
          "PointerMove (samplePointer 1 5 5)
             (sampleEvent ''touchmove'' ''touch'' 20 (samplePointer 1 5 5)) 1"
          "[(sampleEnv 20 True, PointerMove (samplePointer 1 5 5)
               (sampleEvent ''touchmove'' ''touch'' 20 (samplePointer 1 5 5)) 1),
            (sampleEnv 30 True, PointerMove (samplePointer 1 9 9)
               (sampleEvent ''touchmove'' ''touch'' 30 (samplePointer 1 9 9)) 1)]"]
        pointerWasMoved_transitions [of
          "stateOf (pointerMove (sampleEnv 20 True) (samplePointer 1 5 5)
             (sampleEvent ''touchmove'' ''touch'' 20 (samplePointer 1 5 5)) 1 sampleDown)"
          "sampleEnv 30 True"
          "PointerDown (samplePointer 2 7 7)
             (sampleEvent ''touchstart'' ''touch'' 30 (samplePointer 2 7 7)) 1" "[]"]
  by (simp add: sampleDragging_fields sampleDragging_moved sampleDown_moved sampleDown_fields
      pointerDown_self updatePointer_wasMoved)

section \<open>Interacting only while an action is prepared\<close>

lemma start_result:
  "interacting (stateOf (start act tg el s)) \<Longrightarrow>
     (interacting s \<and> prepared (self (stateOf (start act tg el s))) = prepared (self s))
     \<or> name (prepared (self (stateOf (start act tg el s)))) = name act"
  by (simp add: start_def Let_def stateOf_andThen interacting_def copyAction_def split: if_splits)

lemma end_op_result:
  "interacting (stateOf (end_op E g s)) \<Longrightarrow>
     interacting s \<and> prepared (self (stateOf (end_op E g s))) = prepared (self s)"
  by (simp add: end_op_def Let_def stateOf_andThen interacting_def split: if_splits)

lemma pointerUp_result:
  "interacting (stateOf (pointerUp E p ev et cet s)) \<Longrightarrow>
     interacting s \<and> prepared (self (stateOf (pointerUp E p ev et cet s))) = prepared (self s)"
  using end_op_result [of E "Some (RawEvent ev)" "fire (sigName (upFiring p ev et cet s)) (sigArg (upFiring p ev et cet s)) s"]
  by (simp add: pointerUp_def Let_def stateOf_andThen upFiring_def interacting_def split: if_splits)

lemma documentBlur_result:
  "interacting (stateOf (documentBlur E ev s)) \<Longrightarrow>
     interacting s \<and> prepared (self (stateOf (documentBlur E ev s))) = prepared (self s)"
  using end_op_result [of E "Some (RawEvent ev)" s]
  by (simp add: documentBlur_def Let_def stateOf_andThen interacting_def split: if_splits)

lemma named_step:
  assumes "interacting s \<longrightarrow> name (prepared (self s)) \<noteq> None" and "startsNamed c"
  shows "interacting (stateOf (perform E c s)) \<longrightarrow> name (prepared (self (stateOf (perform E c s)))) \<noteq> None"
proof (cases c)
  case (Start act tg el)
  then show ?thesis using assms start_result [of act tg el s] by auto
next
  case (PointerUp p ev et cet)
  then show ?thesis using assms pointerUp_result [of E p ev et cet s] by auto
next
  case (End g)
  then show ?thesis using assms end_op_result [of E g s] by auto
next
  case (DocumentBlur ev)
  then show ?thesis using assms documentBlur_result [of E ev s] by auto
qed (use assms in simp_all)

lemma named_run:
  "interacting s \<longrightarrow> name (prepared (self s)) \<noteq> None \<Longrightarrow>
   \<forall>ec \<in> set cs. startsNamed (snd ec) \<Longrightarrow>
   interacting (run cs s) \<longrightarrow> name (prepared (self (run cs s))) \<noteq> None"
proof (induction cs arbitrary: s)
  case Nil
  then show ?case by simp
next
  case (Cons ec cs)
  have "startsNamed (snd ec)" using Cons.prems(2) by simp
  from named_step [OF Cons.prems(1) this, of "fst ec"]
  show ?case
    using Cons.IH [of "stateOf (perform (fst ec) (snd ec) s)"] Cons.prems(2) by simp
qed

lemma constructor_facts:
  "\<not> interacting (constructor pt fs dl)"
  "pointers (self (constructor pt fs dl)) = []"
  "pointerIds (self (constructor pt fs dl)) = []"
  "downTargets (self (constructor pt fs dl)) = []"
  "downTimes (self (constructor pt fs dl)) = []"
  "pointerType (self (constructor pt fs dl)) = pt"
  by (simp_all add: constructor_def Let_def newInteractionObject_def interacting_def)

text \<open>
  Claim C5, amended. In every session reached from a new one by a sequence of calls
  (\<^verbatim>\<open>pointerDown\<close>, \<^verbatim>\<open>start\<close>, \<^verbatim>\<open>pointerMove\<close>, \<^verbatim>\<open>doMove\<close>, \<^verbatim>\<open>pointerUp\<close>, \<^verbatim>\<open>end\<close>, \<^verbatim>\<open>stop\<close>, and also
  \<^verbatim>\<open>updatePointer\<close>, \<^verbatim>\<open>removePointer\<close> and \<^verbatim>\<open>documentBlur\<close>) in which every \<^verbatim>\<open>start\<close> is given an
  action whose name is not null, \<^verbatim>\<open>_interacting\<close> is true only if \<^verbatim>\<open>prepared.name\<close> is not null;
  and \<^verbatim>\<open>stop()\<close> leaves \<^verbatim>\<open>_interacting\<close> false and \<^verbatim>\<open>prepared.name\<close> null, whatever the session it
  is called on.
\<close>

theorem interacting_only_while_prepared:
  "((\<forall>ec \<in> set cs. startsNamed (snd ec)) \<and> interacting (run cs (constructor pt fs dl)) \<longrightarrow>
      name (prepared (self (run cs (constructor pt fs dl)))) \<noteq> None)
   \<and> \<not> interacting (stop s) \<and> name (prepared (self (stop s))) = None"
  using named_run [of "constructor pt fs dl" cs]
  by (simp add: constructor_facts)

text \<open>
  Claim C5 as stated fails: \<^verbatim>\<open>start\<close> does not look at the name of the action it is given
  beyond comparing it with \<^verbatim>\<open>'gesture'\<close>. Called with an action without a name on the touch
  session that holds one contact, it leaves \<^verbatim>\<open>_interacting\<close> true and \<^verbatim>\<open>prepared.name\<close> null.
\<close>

theorem interacting_without_name_counterexample:
  "interacting sampleNameless \<and> name (prepared (self sampleNameless)) = None"
  by (simp add: sampleNameless_def start_def sampleDown_self newInteractionObject_def
      interacting_def Let_def stateOf_andThen copyAction_def)

lemma sample_run_dragging:
  "run [(sampleEnv 10 True, PointerDown (samplePointer 1 0 0)
           (sampleEvent ''touchstart'' ''touch'' 10 (samplePointer 1 0 0)) 1),
        (sampleEnv 10 True, Start (sampleAction ''drag'') 5 6)]
     (constructor ''touch'' [] []) = sampleDragging"
  by (simp add: sampleDragging_def sampleDown_def)

text \<open>A pointer-down and the start of a drag, and the stop of that drag.\<close>

theorem interacting_only_while_prepared_witness:
  "startsNamed (Start (sampleAction ''drag'') 5 6)
   \<and> interacting (run [(sampleEnv 10 True, PointerDown (samplePointer 1 0 0)
                       (sampleEvent ''touchstart'' ''touch'' 10 (samplePointer 1 0 0)) 1),
                     (sampleEnv 10 True, Start (sampleAction ''drag'') 5 6)]
                  (constructor ''touch'' [] []))
   \<and> name (prepared (self (run [(sampleEnv 10 True, PointerDown (samplePointer 1 0 0)
                       (sampleEvent ''touchstart'' ''touch'' 10 (samplePointer 1 0 0)) 1),
                     (sampleEnv 10 True, Start (sampleAction ''drag'') 5 6)]
                  (constructor ''touch'' [] [])))) \<noteq> None
   \<and> \<not> interacting (stop sampleDragging)
   \<and> name (prepared (self (stop sampleDragging))) = None"
proof -
  have n: "startsNamed (Start (sampleAction ''drag'') 5 6)"
    by (simp add: sampleAction_def)
  have all: "\<forall>ec \<in> set [(sampleEnv 10 True, PointerDown (samplePointer 1 0 0)
                       (sampleEvent ''touchstart'' ''touch'' 10 (samplePointer 1 0 0)) 1),
                     (sampleEnv 10 True, Start (sampleAction ''drag'') 5 6)].
               startsNamed (snd ec)"
    using n by simp
  show ?thesis
    using n all interacting_only_while_prepared [of
          "[(sampleEnv 10 True, PointerDown (samplePointer 1 0 0)
               (sampleEvent ''touchstart'' ''touch'' 10 (samplePointer 1 0 0)) 1),
            (sampleEnv 10 True, Start (sampleAction ''drag'') 5 6)]" "''touch''" "[]" "[]"
          sampleDragging]
    by (simp only: sample_run_dragging sampleDragging_facts) simp
qed

section \<open>Basic facts: arrays and indices\<close>



lemma js_set_twice [simp]: "js_set (js_set xs i v) i w = js_set xs i w"
  by (simp add: js_set_def list_update_append)



lemma indexOfFrom_range:
  "indexOfFrom xs v k = - 1 \<or> (k \<le> indexOfFrom xs v k \<and> indexOfFrom xs v k < k + int (length xs))"
  by (induction xs arbitrary: k) (auto, force+)

lemma indexOfFrom_absent:
  "0 \<le> k \<Longrightarrow> (indexOfFrom xs v k = - 1) = (Some v \<notin> set xs)"
proof (induction xs arbitrary: k)
  case Nil
  then show ?case by simp
next
  case (Cons u us)
  then show ?case by (auto)
qed

lemma indexOfFrom_nth:
  "Some v \<in> set xs \<Longrightarrow>
     k \<le> indexOfFrom xs v k \<and> xs ! nat (indexOfFrom xs v k - k) = Some v"
proof (induction xs arbitrary: k)
  case Nil
  then show ?case by simp
next
  case (Cons u us)
  show ?case
  proof (cases "u = Some v")
    case True
    then show ?thesis by simp
  next
    case False
    with Cons.prems have m: "Some v \<in> set us" by simp
    let ?r = "indexOfFrom us v (k + 1)"
    have ih: "k + 1 \<le> ?r" "us ! nat (?r - (k + 1)) = Some v"
      using Cons.IH [OF m, of "k + 1"] by simp_all
    have "nat (?r - k) = Suc (nat (?r - (k + 1)))"
      using ih(1) by simp
    then show ?thesis
      using False ih by simp
  qed
qed

lemma indexOf_absent: "(indexOf xs v = - 1) = (Some v \<notin> set xs)"
  by (simp add: indexOf_def indexOfFrom_absent)

lemma indexOf_present:
  "Some v \<in> set xs \<Longrightarrow>
     0 \<le> indexOf xs v \<and> nat (indexOf xs v) < length xs \<and> xs ! nat (indexOf xs v) = Some v"
  using indexOfFrom_nth [of v xs 0] indexOfFrom_range [of xs v 0] indexOfFrom_absent [of 0 xs v]
  by (auto simp add: indexOf_def)

lemma getPointerIndex_range:
  "getPointerIndex s p = - 1 \<or> 0 \<le> getPointerIndex s p"
  using indexOfFrom_range [of "pointerIds (self s)" "getPointerId p" 0]
  by (auto simp add: getPointerIndex_def indexOf_def)

lemma getPointerIndex_absent:
  "(getPointerIndex s p = - 1) =
     (pointerType (self s) \<noteq> ''mouse'' \<and> pointerType (self s) \<noteq> ''pen''
      \<and> Some (getPointerId p) \<notin> set (pointerIds (self s)))"
  by (simp add: getPointerIndex_def indexOf_absent)

section \<open>Removing a contact\<close>

text \<open>
  Claim C9, amended. \<^verbatim>\<open>removePointer(pointer)\<close> returns the session as it found it (no signal,
  no array touched) when \<^verbatim>\<open>getPointerIndex\<close> yields \<open>-1\<close>, which is exactly when the session's
  \<^verbatim>\<open>pointerType\<close> is neither \<^verbatim>\<open>mouse\<close> nor \<^verbatim>\<open>pen\<close> and the pointer's identifier is not in
  \<^verbatim>\<open>pointerIds\<close>. Otherwise it fires \<^verbatim>\<open>remove-pointer\<close> with that index and splices the index out
  of \<^verbatim>\<open>pointers\<close>, \<^verbatim>\<open>pointerIds\<close>, \<^verbatim>\<open>downTargets\<close> and \<^verbatim>\<open>downTimes\<close>, the entries before and after
  it keeping their order. On a session of another type that holds the identifier, the
  index is a position of the identifier in \<^verbatim>\<open>pointerIds\<close>; on a \<^verbatim>\<open>mouse\<close> or \<^verbatim>\<open>pen\<close> session it is
  0, whatever the identifier.
\<close>

theorem removePointer_splices_matched_index:
  "(getPointerIndex s p = - 1 \<longrightarrow> removePointer p ev s = s)
   \<and> (getPointerIndex s p \<noteq> - 1 \<longrightarrow>
        0 \<le> getPointerIndex s p
        \<and> (\<exists>f. fired (removePointer p ev s) = fired s @ [f]
                \<and> sigName f = ''remove-pointer''
                \<and> a_pointerIndex (sigArg f) = Some (getPointerIndex s p))
        \<and> pointers (self (removePointer p ev s)) =
            take (nat (getPointerIndex s p)) (pointers (self s))
            @ drop (Suc (nat (getPointerIndex s p))) (pointers (self s))
        \<and> pointerIds (self (removePointer p ev s)) =
            take (nat (getPointerIndex s p)) (pointerIds (self s))
            @ drop (Suc (nat (getPointerIndex s p))) (pointerIds (self s))
        \<and> downTargets (self (removePointer p ev s)) =
            take (nat (getPointerIndex s p)) (downTargets (self s))
            @ drop (Suc (nat (getPointerIndex s p))) (downTargets (self s))
        \<and> downTimes (self (removePointer p ev s)) =
            take (nat (getPointerIndex s p)) (downTimes (self s))
            @ drop (Suc (nat (getPointerIndex s p))) (downTimes (self s)))
   \<and> ((getPointerIndex s p = - 1) =
        (pointerType (self s) \<noteq> ''mouse'' \<and> pointerType (self s) \<noteq> ''pen''
         \<and> Some (getPointerId p) \<notin> set (pointerIds (self s))))
   \<and> (pointerType (self s) \<noteq> ''mouse'' \<and> pointerType (self s) \<noteq> ''pen''
        \<and> Some (getPointerId p) \<in> set (pointerIds (self s)) \<longrightarrow>
        nat (getPointerIndex s p) < length (pointerIds (self s))
        \<and> pointerIds (self s) ! nat (getPointerIndex s p) = Some (getPointerId p))
   \<and> (pointerType (self s) = ''mouse'' \<or> pointerType (self s) = ''pen'' \<longrightarrow>
        getPointerIndex s p = 0)"
proof (intro conjI impI)
  show "(getPointerIndex s p = - 1) =
        (pointerType (self s) \<noteq> ''mouse'' \<and> pointerType (self s) \<noteq> ''pen''
         \<and> Some (getPointerId p) \<notin> set (pointerIds (self s)))"
    by (rule getPointerIndex_absent)
next
  assume "getPointerIndex s p = - 1"
  then show "removePointer p ev s = s"
    by (simp add: removePointer_def)
next
  assume n: "getPointerIndex s p \<noteq> - 1"
  then show "0 \<le> getPointerIndex s p"
    using getPointerIndex_range [of s p] by simp
  from n show "\<exists>f. fired (removePointer p ev s) = fired s @ [f]
                \<and> sigName f = ''remove-pointer''
                \<and> a_pointerIndex (sigArg f) = Some (getPointerIndex s p)"
    by (simp add: removePointer_def Let_def)
  from n show "pointers (self (removePointer p ev s)) =
            take (nat (getPointerIndex s p)) (pointers (self s))
            @ drop (Suc (nat (getPointerIndex s p))) (pointers (self s))"
    by (simp add: removePointer_def Let_def splice1_def)
  from n show "pointerIds (self (removePointer p ev s)) =
            take (nat (getPointerIndex s p)) (pointerIds (self s))
            @ drop (Suc (nat (getPointerIndex s p))) (pointerIds (self s))"
    by (simp add: removePointer_def Let_def splice1_def)
  from n show "downTargets (self (removePointer p ev s)) =
            take (nat (getPointerIndex s p)) (downTargets (self s))
            @ drop (Suc (nat (getPointerIndex s p))) (downTargets (self s))"
    by (simp add: removePointer_def Let_def splice1_def)
  from n show "downTimes (self (removePointer p ev s)) =
            take (nat (getPointerIndex s p)) (downTimes (self s))
            @ drop (Suc (nat (getPointerIndex s p))) (downTimes (self s))"
    by (simp add: removePointer_def Let_def splice1_def)
next
  assume a: "pointerType (self s) \<noteq> ''mouse'' \<and> pointerType (self s) \<noteq> ''pen''
        \<and> Some (getPointerId p) \<in> set (pointerIds (self s))"
  then show "nat (getPointerIndex s p) < length (pointerIds (self s))"
    "pointerIds (self s) ! nat (getPointerIndex s p) = Some (getPointerId p)"
    using indexOf_present [of "getPointerId p" "pointerIds (self s)"]
    by (simp_all add: getPointerIndex_def)
next
  assume "pointerType (self s) = ''mouse'' \<or> pointerType (self s) = ''pen''"
  then show "getPointerIndex s p = 0"
    by (auto simp add: getPointerIndex_def)
qed

lemma sampleMouseDown_fields:
  "pointers (self sampleMouseDown) = [Some (samplePointer 1 0 0)]"
  "pointerIds (self sampleMouseDown) = [Some 1]"
  "downTargets (self sampleMouseDown) = [Some 1]"
  "downTimes (self sampleMouseDown) = [Some 10]"
  "pointerType (self sampleMouseDown) = ''mouse''"
  by (simp_all add: sampleMouseDown_def pointerDown_self updatePointer_def constructor_def
      newInteractionObject_def getPointerIndex_def js_set_def getPointerId_def
      interacting_def Let_def sampleEnv_def)

text \<open>
  Claim C9 as stated fails on mouse sessions. On a new one, whose registry is empty,
  \<^verbatim>\<open>removePointer\<close> fires \<^verbatim>\<open>remove-pointer\<close>. On one that holds the contact 1, removing a
  pointer with the identifier 2, which is absent from the registry, fires \<^verbatim>\<open>remove-pointer\<close>
  and splices the contact at index 0 out.
\<close>

theorem removePointer_unknown_id_counterexample:
  "pointerIds (self (constructor ''mouse'' [] [])) = []
   \<and> map sigName (fired (removePointer (samplePointer 2 0 0)
        (sampleEvent ''mouseup'' ''mouse'' 20 (samplePointer 2 0 0)) (constructor ''mouse'' [] [])))
      = [''new'', ''remove-pointer'']
   \<and> pointerIds (self sampleMouseDown) = [Some 1]
   \<and> getPointerId (samplePointer 2 0 0) = 2
   \<and> removePointer (samplePointer 2 0 0)
        (sampleEvent ''mouseup'' ''mouse'' 20 (samplePointer 2 0 0)) sampleMouseDown
      \<noteq> sampleMouseDown
   \<and> pointerIds (self (removePointer (samplePointer 2 0 0)
        (sampleEvent ''mouseup'' ''mouse'' 20 (samplePointer 2 0 0)) sampleMouseDown)) = []
   \<and> map sigName (fired (removePointer (samplePointer 2 0 0)
        (sampleEvent ''mouseup'' ''mouse'' 20 (samplePointer 2 0 0)) sampleMouseDown))
      = map sigName (fired sampleMouseDown) @ [''remove-pointer'']"
proof -
  have i: "getPointerIndex sampleMouseDown (samplePointer 2 0 0) = 0"
    by (simp add: getPointerIndex_def sampleMouseDown_fields)
  have ids: "pointerIds (self (removePointer (samplePointer 2 0 0)
        (sampleEvent ''mouseup'' ''mouse'' 20 (samplePointer 2 0 0)) sampleMouseDown)) = []"
    by (simp add: removePointer_def Let_def i splice1_def sampleMouseDown_fields)
  have ne: "removePointer (samplePointer 2 0 0)
        (sampleEvent ''mouseup'' ''mouse'' 20 (samplePointer 2 0 0)) sampleMouseDown
      \<noteq> sampleMouseDown"
    using ids sampleMouseDown_fields(2) by auto
  have fresh: "map sigName (fired (removePointer (samplePointer 2 0 0)
        (sampleEvent ''mouseup'' ''mouse'' 20 (samplePointer 2 0 0)) (constructor ''mouse'' [] [])))
      = [''new'', ''remove-pointer'']"
    by (simp add: removePointer_def Let_def getPointerIndex_def constructor_def
        newInteractionObject_def)
  show ?thesis
    using ids ne fresh
    by (simp add: sampleMouseDown_fields getPointerId_def removePointer_def Let_def i
        constructor_facts)
qed

text \<open>A touch session asked to remove an unknown contact and then its own, and the mouse
  session above.\<close>

theorem removePointer_splices_matched_index_witness:
  "getPointerIndex sampleDown (samplePointer 9 0 0) = - 1
   \<and> removePointer (samplePointer 9 0 0)
        (sampleEvent ''touchend'' ''touch'' 20 (samplePointer 9 0 0)) sampleDown = sampleDown
   \<and> getPointerIndex sampleDown (samplePointer 1 0 0) = 0
   \<and> pointerIds (self (removePointer (samplePointer 1 0 0)
        (sampleEvent ''touchend'' ''touch'' 20 (samplePointer 1 0 0)) sampleDown)) = []
   \<and> getPointerIndex sampleMouseDown (samplePointer 2 0 0) = 0"
  using removePointer_splices_matched_index [of sampleDown "samplePointer 9 0 0"
          "sampleEvent ''touchend'' ''touch'' 20 (samplePointer 9 0 0)"]
        removePointer_splices_matched_index [of sampleDown "samplePointer 1 0 0"
          "sampleEvent ''touchend'' ''touch'' 20 (samplePointer 1 0 0)"]
        removePointer_splices_matched_index [of sampleMouseDown "samplePointer 2 0 0"
          "sampleEvent ''mouseup'' ''mouse'' 20 (samplePointer 2 0 0)"]
  by (simp add: getPointerIndex_def indexOf_def getPointerId_def sampleDown_fields
      sampleMouseDown_fields)

section \<open>Basic facts: the steps of \<^verbatim>\<open>pointerUp\<close>\<close>

lemma fire_upFiring:
  "fire (if regexEndsNoCase ''cancel'' (etype ev) then ''cancel'' else ''up'')
     (noArg\<lparr> a_pointer := Some p, a_pointerIndex := Some (getPointerIndex s p),
             a_event := Some (RawEvent ev), a_eventTarget := Some et,
             a_curEventTarget := Some cet \<rparr>) s
   = s\<lparr> fired := fired s @ [upFiring p ev et cet s] \<rparr>"
  by (simp add: fire_def upFiring_def)

lemma pointerUp_unfold:
  "pointerUp E p ev et cet s =
     andThen (if simulation (self s)
              then Returned (s\<lparr> fired := fired s @ [upFiring p ev et cet s] \<rparr>)
              else end_op E (Some (RawEvent ev)) (s\<lparr> fired := fired s @ [upFiring p ev et cet s] \<rparr>))
       (\<lambda>s2. Returned (removePointer p ev (s2\<lparr> self := (self s2)\<lparr> pointerIsDown := False \<rparr> \<rparr>)))"
  by (simp add: pointerUp_def Let_def fire_upFiring)

lemma andThen_if: "andThen r k = (if returned r then k (stateOf r) else r)"
  by (cases r) (simp_all add: andThen_def)

section \<open>The four parallel arrays\<close>


lemma updatePointer_index: "fst (updatePointer E p ev et down s) = slotIndex s p"
  by (simp add: updatePointer_def Let_def slotIndex_def)

lemma updatePointer_arrays:
  "pointerIds (self (snd (updatePointer E p ev et down s))) =
     (if getPointerIndex s p = - 1 \<or> down
      then js_set (pointerIds (self s)) (slotIndex s p) (getPointerId p)
      else pointerIds (self s))"
  "pointers (self (snd (updatePointer E p ev et down s))) =
     js_set (pointers (self s)) (slotIndex s p) p"
  "downTargets (self (snd (updatePointer E p ev et down s))) =
     (if down \<and> \<not> interacting s
      then js_set (downTargets (self s)) (slotIndex s p) et
      else downTargets (self s))"
  by (simp_all add: updatePointer_def Let_def interacting_def slotIndex_def)







lemma pointerMove_arrays [simp]:
  "pointers (self (stateOf (pointerMove E p ev et s))) = pointers (self (moveSample E p ev et s))"
  "pointerIds (self (stateOf (pointerMove E p ev et s))) = pointerIds (self (moveSample E p ev et s))"
  by (simp_all add: pointerMove_def Let_def stateOf_andThen)











subsection \<open>Every call handles the entries at one index as one record\<close>



























lemma sampleMouseDown_simulation: "simulation (self sampleMouseDown) = False"
  by (simp add: sampleMouseDown_def pointerDown_self constructor_def newInteractionObject_def)

lemma sampleMouseOtherId_fields:
  "pointerIds (self sampleMouseOtherId) = [Some 1]"
  "pointers (self sampleMouseOtherId) = [Some (samplePointer 2 5 5)]"
  by (simp_all add: sampleMouseOtherId_def moveSample_arrays updatePointer_arrays
      sampleMouseDown_fields getPointerIndex_def slotIndex_def js_set_def
      sampleMouseDown_simulation)

text \<open>On a mouse session index 0 is the slot of every pointer, and a move does not write the
  identifier: the identifier at index 0 stays that of the pointer that went down.\<close>

lemma mouse_identifier_not_refreshed:
  "pointerIds (self sampleMouseOtherId) = [Some 1]
   \<and> pointers (self sampleMouseOtherId) = [Some (samplePointer 2 5 5)]
   \<and> \<not> idsMatch (self sampleMouseOtherId)"
  by (simp add: sampleMouseOtherId_fields idsMatch_def entry_def getPointerId_def)


section \<open>The order of \<^verbatim>\<open>pointerUp\<close>\<close>

lemma end_op_fired:
  "\<exists>new. fired (stateOf (end_op E g s)) = fired s @ new
      \<and> (\<forall>f \<in> set new. \<exists>i. snapshot f = Some i \<and> sameRegistry i (self s))"
  by (auto simp add: end_op_def Let_def stateOf_andThen sameRegistry_def)

lemma end_op_returned:
  "\<not> interacting s \<or> target (self s) \<noteq> None \<Longrightarrow> returned (end_op E g s)"
  by (auto simp add: end_op_def Let_def returned_andThen interacting_def)

lemma removePointer_fired:
  "\<exists>rest. fired (removePointer p ev s) = fired s @ rest
      \<and> (\<forall>f \<in> set rest. sigName f = ''remove-pointer'')"
  by (simp add: removePointer_def Let_def)

text \<open>
  Claim C8. \<^verbatim>\<open>pointerUp(pointer, event, eventTarget, curEventTarget)\<close> first fires \<^verbatim>\<open>cancel\<close> if
  \<^verbatim>\<open>event.type\<close> matches \<^verbatim>\<open>/cancel$/i\<close> and \<^verbatim>\<open>up\<close> otherwise (\<open>s1\<close> is the session after that
  firing). Then, unless a simulation is active, it calls \<^verbatim>\<open>end(event)\<close> (\<open>r\<close> is the outcome
  of this step): the session \<^verbatim>\<open>end\<close> leaves, and every session that a listener of a firing
  of \<^verbatim>\<open>end\<close> sees, has the registry and the \<^verbatim>\<open>pointerIsDown\<close> of the session before the call, so
  the contact is still present. Only when this step has returned does \<^verbatim>\<open>pointerUp\<close> clear
  \<^verbatim>\<open>pointerIsDown\<close> and remove the contact from the four arrays; whatever it fires then
  is \<^verbatim>\<open>remove-pointer\<close>. The step returns whenever the session is not interacting or has a
  target; if it throws, so does \<^verbatim>\<open>pointerUp\<close>, with nothing cleared.
\<close>

theorem pointerUp_order:
  assumes "s1 = s\<lparr> fired := fired s @ [upFiring p ev et cet s] \<rparr>"
      and "r = (if simulation (self s) then Returned s1
                else end_op E (Some (RawEvent ev)) s1)"
  shows "sigName (upFiring p ev et cet s) =
           (if regexEndsNoCase ''cancel'' (etype ev) then ''cancel'' else ''up'')
     \<and> pointerUp E p ev et cet s =
           (if returned r
            then Returned (removePointer p ev
                   ((stateOf r)\<lparr> self := (self (stateOf r))\<lparr> pointerIsDown := False \<rparr> \<rparr>))
            else r)
     \<and> sameRegistry (self (stateOf r)) (self s)
     \<and> (\<exists>new. fired (stateOf r) = fired s1 @ new
            \<and> (\<forall>f \<in> set new. \<exists>i. snapshot f = Some i \<and> sameRegistry i (self s)))
     \<and> (returned r \<longrightarrow>
            \<not> pointerIsDown (self (stateOf (pointerUp E p ev et cet s)))
            \<and> (\<exists>rest. fired (stateOf (pointerUp E p ev et cet s)) = fired (stateOf r) @ rest
                   \<and> (\<forall>f \<in> set rest. sigName f = ''remove-pointer'')))
     \<and> (\<not> interacting s \<or> target (self s) \<noteq> None \<longrightarrow> returned r)"
proof -
  have nm: "sigName (upFiring p ev et cet s) =
           (if regexEndsNoCase ''cancel'' (etype ev) then ''cancel'' else ''up'')"
    by (simp add: upFiring_def)
  have up: "pointerUp E p ev et cet s =
           (if returned r
            then Returned (removePointer p ev
                   ((stateOf r)\<lparr> self := (self (stateOf r))\<lparr> pointerIsDown := False \<rparr> \<rparr>))
            else r)"
    by (simp add: pointerUp_unfold assms andThen_if)
  have self1: "self s1 = self s"
    by (simp add: assms(1))
  have reg: "sameRegistry (self (stateOf r)) (self s)"
    by (simp add: assms(2) sameRegistry_def self1)
  have fl: "\<exists>new. fired (stateOf r) = fired s1 @ new
            \<and> (\<forall>f \<in> set new. \<exists>i. snapshot f = Some i \<and> sameRegistry i (self s))"
    using end_op_fired [of E "Some (RawEvent ev)" s1] by (auto simp add: assms(2) self1)
  have after: "\<not> pointerIsDown (self (stateOf (pointerUp E p ev et cet s)))
            \<and> (\<exists>rest. fired (stateOf (pointerUp E p ev et cet s)) = fired (stateOf r) @ rest
                   \<and> (\<forall>f \<in> set rest. sigName f = ''remove-pointer''))"
    if "returned r"
    using that up
      removePointer_fired [of p ev "(stateOf r)\<lparr> self := (self (stateOf r))\<lparr> pointerIsDown := False \<rparr> \<rparr>"]
    by simp
  have ret: "returned r" if "\<not> interacting s \<or> target (self s) \<noteq> None"
    using that end_op_returned [of s1 E "Some (RawEvent ev)"]
    by (simp add: assms(2) self1 interacting_def)
  show ?thesis
    using nm up reg fl after ret by blast
qed


text \<open>A \<^verbatim>\<open>touchend\<close> and a \<^verbatim>\<open>touchcancel\<close> on the dragging sample session.\<close>

theorem pointerUp_order_witness:
  "sigName (upFiring (samplePointer 1 0 0)
      (sampleEvent ''touchend'' ''touch'' 30 (samplePointer 1 0 0)) 1 2 sampleDragging) = ''up''
   \<and> sigName (upFiring (samplePointer 1 0 0)
      (sampleEvent ''touchcancel'' ''touch'' 30 (samplePointer 1 0 0)) 1 2 sampleDragging) = ''cancel''
   \<and> returned (pointerUp (sampleEnv 30 True) (samplePointer 1 0 0)
      (sampleEvent ''touchend'' ''touch'' 30 (samplePointer 1 0 0)) 1 2 sampleDragging)
   \<and> \<not> pointerIsDown (self (stateOf (pointerUp (sampleEnv 30 True) (samplePointer 1 0 0)
      (sampleEvent ''touchend'' ''touch'' 30 (samplePointer 1 0 0)) 1 2 sampleDragging)))
   \<and> pointerIds (self (stateOf (pointerUp (sampleEnv 30 True) (samplePointer 1 0 0)
      (sampleEvent ''touchend'' ''touch'' 30 (samplePointer 1 0 0)) 1 2 sampleDragging))) = []"
  using pointerUp_order [where E = "sampleEnv 30 True" and p = "samplePointer 1 0 0"
          and ev = "sampleEvent ''touchend'' ''touch'' 30 (samplePointer 1 0 0)"
          and et = 1 and cet = 2 and s = sampleDragging, OF refl refl]
        pointerUp_order [where E = "sampleEnv 30 True" and p = "samplePointer 1 0 0"
          and ev = "sampleEvent ''touchcancel'' ''touch'' 30 (samplePointer 1 0 0)"
          and et = 1 and cet = 2 and s = sampleDragging, OF refl refl]
  by (simp add: regexEndsNoCase_def toLowerAscii_def sampleEvent_def sampleDragging_facts
      sampleDragging_fields removePointer_def Let_def getPointerIndex_def indexOf_def
      getPointerId_def splice1_def)

section \<open>Mouse events the dispatcher drops\<close>






end
